theory Spec2Isabelle
  imports Main "HOL-Library.Word"
begin

section \<open>Go values used by the controller package\<close>

subsection \<open>Errors\<close>

text \<open>
  A Go \<open>error\<close> value. \<open>Errorf p e\<close> is \<open>fmt.Errorf(p + "%w", e)\<close>, which wraps \<open>e\<close>;
  \<open>ErrorfQ p a q\<close> is \<open>fmt.Errorf(p + "%q" + q, a)\<close>; \<open>URLError\<close>, \<open>EscapeError\<close> and
  \<open>InvalidHostError\<close> are the error types of \<open>net/url\<close>; \<open>StatusError\<close> is the API error of
  \<open>k8s.io/apimachinery\<close>, which carries the reason, the HTTP code and the message of its
  status. A \<open>metav1.StatusReason\<close> is a string.
\<close>

type_synonym StatusReason = string

definition StatusReasonUnknown :: StatusReason where
  "StatusReasonUnknown = []"

definition StatusReasonNotFound :: StatusReason where
  "StatusReasonNotFound = ''NotFound''"

definition StatusReasonAlreadyExists :: StatusReason where
  "StatusReasonAlreadyExists = ''AlreadyExists''"

datatype error =
    ErrorString string
  | Errorf string error
  | ErrorfQ string string string
  | URLError string string error
  | EscapeError string
  | InvalidHostError string
  | StatusError StatusReason int string

subsection \<open>Strings (package \<open>strings\<close>)\<close>

text \<open>
  A Go string is a sequence of bytes, here a \<open>char list\<close>. The functions below are the
  ones of package \<open>strings\<close> that the code reaches, at the separators it uses them with.
\<close>

definition byte_le :: "char \<Rightarrow> char \<Rightarrow> bool" where
  "byte_le a b = ((of_char a :: nat) \<le> of_char b)"

definition between :: "char \<Rightarrow> char \<Rightarrow> char \<Rightarrow> bool" where
  "between lo c hi = (byte_le lo c \<and> byte_le c hi)"

definition HasPrefix :: "string \<Rightarrow> string \<Rightarrow> bool" where
  "HasPrefix s p = (take (length p) s = p)"

definition HasSuffix :: "string \<Rightarrow> string \<Rightarrow> bool" where
  "HasSuffix s p = (length p \<le> length s \<and> drop (length s - length p) s = p)"

definition TrimPrefix :: "string \<Rightarrow> string \<Rightarrow> string" where
  "TrimPrefix s p = (if HasPrefix s p then drop (length p) s else s)"

text \<open>\<open>strings.Cut(s, sep)\<close> for a separator of one byte: before, after, found.\<close>

definition Cut :: "string \<Rightarrow> char \<Rightarrow> string \<times> string \<times> bool" where
  "Cut s sep =
     (takeWhile (\<lambda>x. x \<noteq> sep) s, drop 1 (dropWhile (\<lambda>x. x \<noteq> sep) s), sep \<in> set s)"

text \<open>
  For \<open>i := strings.LastIndex(s, sep)\<close> with \<open>i \<ge> 0\<close>: \<open>before_last sep s\<close> is \<open>s[:i]\<close> and
  \<open>after_last sep s\<close> is \<open>s[i+1:]\<close>.
\<close>

definition before_last :: "char \<Rightarrow> string \<Rightarrow> string" where
  "before_last sep s = rev (drop 1 (dropWhile (\<lambda>x. x \<noteq> sep) (rev s)))"

definition after_last :: "char \<Rightarrow> string \<Rightarrow> string" where
  "after_last sep s = rev (takeWhile (\<lambda>x. x \<noteq> sep) (rev s))"

text \<open>\<open>strings.Index(s, sub)\<close>; \<open>None\<close> is the result \<open>-1\<close>.\<close>

fun Index :: "string \<Rightarrow> string \<Rightarrow> nat option" where
  "Index [] sub = (if sub = [] then Some 0 else None)"
| "Index (c # s) sub =
     (if HasPrefix (c # s) sub then Some 0
      else (case Index s sub of None \<Rightarrow> None | Some i \<Rightarrow> Some (Suc i)))"

text \<open>
  \<open>strings.ToLower\<close> on the bytes \<open>A\<close> to \<open>Z\<close>. The code applies it to a scheme only,
  and \<open>getScheme\<close> lets nothing but ASCII letters, digits, \<open>+\<close>, \<open>-\<close> and \<open>.\<close> into a scheme.
\<close>

definition ToLower :: "string \<Rightarrow> string" where
  "ToLower s =
     map (\<lambda>c. if between CHR ''A'' c CHR ''Z'' then char_of ((of_char c :: nat) + 32) else c) s"

section \<open>The standard library's URL parser (\<open>net/url\<close>)\<close>

text \<open>
  \<open>parseBucketURL\<close> calls \<open>url.Parse\<close> and reads the fields \<open>Host\<close> and \<open>Path\<close> of the
  result. The definitions below follow \<open>url.Parse\<close> and the functions it calls in the Go
  standard library (\<open>net/url/url.go\<close>), function by function. The fields \<open>RawPath\<close> and
  \<open>RawFragment\<close> are left out: they are hints computed with \<open>escape\<close>, which cannot fail,
  and nothing here reads them.
\<close>

record Userinfo =
  username :: string
  password :: string
  passwordSet :: bool

record URL =
  Scheme :: string
  Opaque :: string
  User :: "Userinfo option"
  Host :: string
  Path :: string
  OmitHost :: bool
  ForceQuery :: bool
  RawQuery :: string
  Fragment :: string

definition empty_URL :: URL where
  "empty_URL = \<lparr>Scheme = [], Opaque = [], User = None, Host = [], Path = [],
     OmitHost = False, ForceQuery = False, RawQuery = [], Fragment = []\<rparr>"

datatype encoding =
    encodePath
  | encodePathSegment
  | encodeHost
  | encodeZone
  | encodeUserPassword
  | encodeQueryComponent
  | encodeFragment

definition ishex :: "char \<Rightarrow> bool" where
  "ishex c = (between CHR ''0'' c CHR ''9'' \<or> between CHR ''a'' c CHR ''f'' \<or>
     between CHR ''A'' c CHR ''F'')"

definition unhex :: "char \<Rightarrow> nat" where
  "unhex c =
     (if between CHR ''0'' c CHR ''9'' then of_char c - of_char CHR ''0''
      else if between CHR ''a'' c CHR ''f'' then of_char c - of_char CHR ''a'' + 10
      else if between CHR ''A'' c CHR ''F'' then of_char c - of_char CHR ''A'' + 10
      else 0)"

definition shouldEscape :: "char \<Rightarrow> encoding \<Rightarrow> bool" where
  "shouldEscape c mode =
     (if between CHR ''a'' c CHR ''z'' \<or> between CHR ''A'' c CHR ''Z'' \<or>
         between CHR ''0'' c CHR ''9'' then False
      else if (mode = encodeHost \<or> mode = encodeZone) \<and> c \<in> set ''!$&()*+,;=:[]<>'' then False
      else if (mode = encodeHost \<or> mode = encodeZone) \<and> (c = CHR 0x27 \<or> c = CHR 0x22) then False
      else if c \<in> set ''-_.~'' then False
      else if c \<in> set ''$&+,/:;=?@'' \<and> mode = encodePath then c = CHR ''?''
      else if c \<in> set ''$&+,/:;=?@'' \<and> mode = encodePathSegment then
        c = CHR ''/'' \<or> c = CHR '';'' \<or> c = CHR '','' \<or> c = CHR ''?''
      else if c \<in> set ''$&+,/:;=?@'' \<and> mode = encodeUserPassword then
        c = CHR ''@'' \<or> c = CHR ''/'' \<or> c = CHR ''?'' \<or> c = CHR '':''
      else if c \<in> set ''$&+,/:;=?@'' \<and> mode = encodeQueryComponent then True
      else if c \<in> set ''$&+,/:;=?@'' \<and> mode = encodeFragment then False
      else if mode = encodeFragment \<and> c \<in> set ''!()*'' then False
      else True)"

text \<open>
  \<open>unescape\<close>, first loop: it counts the \<open>%\<close> and checks that each is followed by two
  hexadecimal digits, and in a host that every byte may stand there. \<open>Some\<close> is the error
  it returns.
\<close>

fun unescape_check :: "encoding \<Rightarrow> string \<Rightarrow> error option" where
  "unescape_check mode [] = None"
| "unescape_check mode (c # s) =
     (if c = CHR ''%'' then
        (case s of
           a # b # rest \<Rightarrow>
             if \<not> ishex a \<or> \<not> ishex b then Some (EscapeError (take 3 (c # s)))
             else if mode = encodeHost \<and> unhex a < 8 \<and> [c, a, b] \<noteq> ''%25'' then
               Some (EscapeError [c, a, b])
             else if mode = encodeZone \<and> [c, a, b] \<noteq> ''%25'' \<and>
                 unhex a * 16 + unhex b \<noteq> of_char CHR '' '' \<and>
                 shouldEscape (char_of (unhex a * 16 + unhex b)) encodeHost then
               Some (EscapeError [c, a, b])
             else unescape_check mode rest
         | _ \<Rightarrow> Some (EscapeError (take 3 (c # s))))
      else if c = CHR ''+'' then unescape_check mode s
      else if (mode = encodeHost \<or> mode = encodeZone) \<and> (of_char c :: nat) < 0x80 \<and>
          shouldEscape c encodeHost then
        Some (InvalidHostError [c])
      else unescape_check mode s)"

text \<open>
  \<open>unescape\<close>, second loop: the decoding. It runs only on a string that passed the first
  loop, where every \<open>%\<close> has its two digits.
\<close>

fun unescape_decode :: "encoding \<Rightarrow> string \<Rightarrow> string" where
  "unescape_decode mode [] = []"
| "unescape_decode mode (c # s) =
     (if c = CHR ''%'' then
        (case s of
           a # b # rest \<Rightarrow> char_of (unhex a * 16 + unhex b) # unescape_decode mode rest
         | _ \<Rightarrow> [])
      else if c = CHR ''+'' then
        (if mode = encodeQueryComponent then CHR '' '' else CHR ''+'') # unescape_decode mode s
      else c # unescape_decode mode s)"

definition unescape :: "string \<Rightarrow> encoding \<Rightarrow> error + string" where
  "unescape s mode =
     (case unescape_check mode s of
        Some err \<Rightarrow> Inl err
      | None \<Rightarrow> Inr (unescape_decode mode s))"

definition stringContainsCTLByte :: "string \<Rightarrow> bool" where
  "stringContainsCTLByte s =
     list_ex (\<lambda>b. (of_char b :: nat) < of_char CHR '' '' \<or> (of_char b :: nat) = 0x7f) s"

fun getScheme_from :: "string \<Rightarrow> nat \<Rightarrow> string \<Rightarrow> error + (string \<times> string)" where
  "getScheme_from rawURL i [] = Inr ([], rawURL)"
| "getScheme_from rawURL i (c # cs) =
     (if between CHR ''a'' c CHR ''z'' \<or> between CHR ''A'' c CHR ''Z'' then
        getScheme_from rawURL (i + 1) cs
      else if between CHR ''0'' c CHR ''9'' \<or> c = CHR ''+'' \<or> c = CHR ''-'' \<or> c = CHR ''.'' then
        (if i = 0 then Inr ([], rawURL) else getScheme_from rawURL (i + 1) cs)
      else if c = CHR '':'' then
        (if i = 0 then Inl (ErrorString ''missing protocol scheme'')
         else Inr (take i rawURL, cs))
      else Inr ([], rawURL))"

definition getScheme :: "string \<Rightarrow> error + (string \<times> string)" where
  "getScheme rawURL = getScheme_from rawURL 0 rawURL"

definition validOptionalPort :: "string \<Rightarrow> bool" where
  "validOptionalPort port =
     (case port of
        [] \<Rightarrow> True
      | c # ds \<Rightarrow> c = CHR '':'' \<and> list_all (\<lambda>b. between CHR ''0'' b CHR ''9'') ds)"

definition validUserinfo :: "string \<Rightarrow> bool" where
  "validUserinfo s =
     list_all (\<lambda>r. between CHR ''A'' r CHR ''Z'' \<or> between CHR ''a'' r CHR ''z'' \<or>
        between CHR ''0'' r CHR ''9'' \<or> r \<in> set ''-._:~!$&()*+,;=%@'' \<or> r = CHR 0x27) s"

definition parseHost :: "string \<Rightarrow> error + string" where
  "parseHost host =
     (if HasPrefix host ''['' then
        (if CHR '']'' \<notin> set host then Inl (ErrorString (''missing '' @ [CHR 0x27] @ '']'' @ [CHR 0x27] @ '' in host''))
         else
           let i = length (before_last CHR '']'' host);
               colonPort = drop (i + 1) host
           in
             if \<not> validOptionalPort colonPort then
               Inl (ErrorfQ ''invalid port '' colonPort '' after host'')
             else
               (case Index (take i host) ''%25'' of
                  Some zone \<Rightarrow>
                    (case unescape (take zone host) encodeHost of
                       Inl err \<Rightarrow> Inl err
                     | Inr host1 \<Rightarrow>
                         (case unescape (drop zone (take i host)) encodeZone of
                            Inl err \<Rightarrow> Inl err
                          | Inr host2 \<Rightarrow>
                              (case unescape (drop i host) encodeHost of
                                 Inl err \<Rightarrow> Inl err
                               | Inr host3 \<Rightarrow> Inr (host1 @ host2 @ host3))))
                | None \<Rightarrow> unescape host encodeHost))
      else if CHR '':'' \<in> set host \<and>
          \<not> validOptionalPort (CHR '':'' # after_last CHR '':'' host) then
        Inl (ErrorfQ ''invalid port '' (CHR '':'' # after_last CHR '':'' host) '' after host'')
      else unescape host encodeHost)"

definition parseUserinfo :: "string \<Rightarrow> error + Userinfo" where
  "parseUserinfo userinfo =
     (if CHR '':'' \<notin> set userinfo then
        (case unescape userinfo encodeUserPassword of
           Inl err \<Rightarrow> Inl err
         | Inr u \<Rightarrow> Inr \<lparr>username = u, password = [], passwordSet = False\<rparr>)
      else
        (let (u0, p0, _) = Cut userinfo CHR '':'' in
           case unescape u0 encodeUserPassword of
             Inl err \<Rightarrow> Inl err
           | Inr u \<Rightarrow>
               (case unescape p0 encodeUserPassword of
                  Inl err \<Rightarrow> Inl err
                | Inr p \<Rightarrow> Inr \<lparr>username = u, password = p, passwordSet = True\<rparr>)))"

definition parseAuthority :: "string \<Rightarrow> error + (Userinfo option \<times> string)" where
  "parseAuthority authority =
     (if CHR ''@'' \<notin> set authority then
        (case parseHost authority of
           Inl err \<Rightarrow> Inl err
         | Inr host \<Rightarrow> Inr (None, host))
      else
        (case parseHost (after_last CHR ''@'' authority) of
           Inl err \<Rightarrow> Inl err
         | Inr host \<Rightarrow>
             if \<not> validUserinfo (before_last CHR ''@'' authority) then
               Inl (ErrorString ''net/url: invalid userinfo'')
             else
               (case parseUserinfo (before_last CHR ''@'' authority) of
                  Inl err \<Rightarrow> Inl err
                | Inr user \<Rightarrow> Inr (Some user, host))))"

definition setPath :: "URL \<Rightarrow> string \<Rightarrow> error + URL" where
  "setPath u p =
     (case unescape p encodePath of
        Inl err \<Rightarrow> Inl err
      | Inr path \<Rightarrow> Inr (u\<lparr>Path := path\<rparr>))"

definition setFragment :: "URL \<Rightarrow> string \<Rightarrow> error + URL" where
  "setFragment u f =
     (case unescape f encodeFragment of
        Inl err \<Rightarrow> Inl err
      | Inr frag \<Rightarrow> Inr (u\<lparr>Fragment := frag\<rparr>))"

text \<open>
  The second half of \<open>parse\<close>, from the test for an authority on: \<open>rest\<close> is what is left
  after the scheme and the query.
\<close>

definition parse_authority_path :: "URL \<Rightarrow> string \<Rightarrow> bool \<Rightarrow> error + URL" where
  "parse_authority_path url rest viaRequest =
     (if (Scheme url \<noteq> [] \<or> (\<not> viaRequest \<and> \<not> HasPrefix rest ''///'')) \<and>
         HasPrefix rest ''//'' then
        (let authority = takeWhile (\<lambda>x. x \<noteq> CHR ''/'') (drop 2 rest);
             rest' = dropWhile (\<lambda>x. x \<noteq> CHR ''/'') (drop 2 rest)
         in case parseAuthority authority of
              Inl err \<Rightarrow> Inl err
            | Inr (user, host) \<Rightarrow> setPath (url\<lparr>User := user, Host := host\<rparr>) rest')
      else if Scheme url \<noteq> [] \<and> HasPrefix rest ''/'' then
        setPath (url\<lparr>OmitHost := True\<rparr>) rest
      else setPath url rest)"

definition parse :: "string \<Rightarrow> bool \<Rightarrow> error + URL" where
  "parse rawURL viaRequest =
     (if stringContainsCTLByte rawURL then
        Inl (ErrorString ''net/url: invalid control character in URL'')
      else if rawURL = [] \<and> viaRequest then Inl (ErrorString ''empty url'')
      else if rawURL = ''*'' then Inr (empty_URL\<lparr>Path := ''*''\<rparr>)
      else
        (case getScheme rawURL of
           Inl err \<Rightarrow> Inl err
         | Inr (scheme, rest0) \<Rightarrow>
             (let url = empty_URL\<lparr>Scheme := ToLower scheme\<rparr>;
                  (rest, url) =
                    (if HasSuffix rest0 ''?'' \<and> count_list rest0 CHR ''?'' = 1 then
                       (butlast rest0, url\<lparr>ForceQuery := True\<rparr>)
                     else
                       (let (r, q, _) = Cut rest0 CHR ''?'' in (r, url\<lparr>RawQuery := q\<rparr>)))
              in
                if \<not> HasPrefix rest ''/'' \<and> Scheme url \<noteq> [] then Inr (url\<lparr>Opaque := rest\<rparr>)
                else if \<not> HasPrefix rest ''/'' \<and> viaRequest then
                  Inl (ErrorString ''invalid URI for request'')
                else if \<not> HasPrefix rest ''/'' \<and> CHR '':'' \<in> set (fst (Cut rest CHR ''/'')) then
                  Inl (ErrorString ''first path segment in URL cannot contain colon'')
                else parse_authority_path url rest viaRequest)))"

definition Parse :: "string \<Rightarrow> error + URL" where
  "Parse rawURL =
     (let (u, frag, _) = Cut rawURL CHR ''#'' in
        case parse u False of
          Inl err \<Rightarrow> Inl (URLError ''parse'' u err)
        | Inr url \<Rightarrow>
            if frag = [] then Inr url
            else
              (case setFragment url frag of
                 Inl err \<Rightarrow> Inl (URLError ''parse'' rawURL err)
               | Inr url' \<Rightarrow> Inr url'))"

section \<open>Lexical paths (\<open>path/filepath\<close>, with the separator \<open>/\<close>)\<close>

text \<open>
  \<open>filepath.Clean\<close> reads the path element by element: an empty element and \<open>.\<close> are
  dropped; \<open>..\<close> removes the element before it when there is one that is not \<open>..\<close>
  itself, is kept in a path that is not rooted, and is dropped at the root. The elements
  kept are joined by single separators, after a leading \<open>/\<close> in a rooted path, and an
  empty result is \<open>.\<close>. \<open>clean_elems\<close> is its loop, on the list of elements kept so far.
\<close>

fun split_sep :: "char \<Rightarrow> string \<Rightarrow> string list" where
  "split_sep sep [] = [[]]"
| "split_sep sep (c # s) =
     (if c = sep then [] # split_sep sep s
      else (case split_sep sep s of
              e # es \<Rightarrow> (c # e) # es
            | [] \<Rightarrow> [[c]]))"

fun join_sep :: "char \<Rightarrow> string list \<Rightarrow> string" where
  "join_sep sep [] = []"
| "join_sep sep [e] = e"
| "join_sep sep (e # es) = e @ sep # join_sep sep es"

fun clean_elems :: "bool \<Rightarrow> string list \<Rightarrow> string list \<Rightarrow> string list" where
  "clean_elems rooted out [] = out"
| "clean_elems rooted out (e # es) =
     (if e = [] \<or> e = ''.'' then clean_elems rooted out es
      else if e = ''..'' then
        (if out \<noteq> [] \<and> last out \<noteq> ''..'' then clean_elems rooted (butlast out) es
         else if \<not> rooted then clean_elems rooted (out @ [''..'']) es
         else clean_elems rooted out es)
      else clean_elems rooted (out @ [e]) es)"

definition Clean :: "string \<Rightarrow> string" where
  "Clean path =
     (if path = [] then ''.''
      else
        (let rooted = (hd path = CHR ''/'');
             out = clean_elems rooted [] (split_sep CHR ''/'' path)
         in if rooted then CHR ''/'' # join_sep CHR ''/'' out
            else if out = [] then ''.''
            else join_sep CHR ''/'' out))"

text \<open>
  \<open>filepath.Dir\<close>: everything up to and including the last separator, cleaned (there is
  no volume name on the platforms the controller runs on).
\<close>

definition Dir :: "string \<Rightarrow> string" where
  "Dir path = Clean (rev (dropWhile (\<lambda>c. c \<noteq> CHR ''/'') (rev path)))"

section \<open>Shared helpers of the controller package\<close>

subsection \<open>\<open>parseBucketURL\<close>\<close>

text \<open>The three results are the bucket, the subpath and the error (\<open>None\<close> is \<open>nil\<close>).\<close>

definition parseBucketURL :: "string \<Rightarrow> string \<times> string \<times> error option" where
  "parseBucketURL bucketURL =
     (case Parse bucketURL of
        Inl err \<Rightarrow> ([], [], Some (Errorf ''parsing bucket url: '' err))
      | Inr u \<Rightarrow>
          (let bucket = Host u;
               subpath = TrimPrefix (Dir (Path u)) ''/''
           in (bucket, subpath, None)))"

subsection \<open>\<open>nextPowOf2\<close>\<close>

text \<open>
  \<^verbatim>\<open>func nextPowOf2(n int64) int64 { k := int64(1); for k < n { k = k << 1 }; return k }\<close>

  An \<open>int64\<close> is a \<open>64 word\<close> read with \<open>sint\<close>; the comparison of the loop is the signed
  one and the shift wraps around. The loop need not end (for \<open>n\<close> above \<open>2 ^ 62\<close> the
  shift overflows to a negative value and then to \<open>0\<close>), so it is a partial function:
  \<open>None\<close> stands for a loop that never returns.
\<close>

partial_function (option) nextPowOf2_loop :: "64 word \<Rightarrow> 64 word \<Rightarrow> 64 word option" where
  "nextPowOf2_loop k n = (if k <s n then nextPowOf2_loop (push_bit 1 k) n else Some k)"

definition nextPowOf2 :: "64 word \<Rightarrow> 64 word option" where
  "nextPowOf2 n = nextPowOf2_loop 1 n"

subsection \<open>\<open>conditionsReady\<close>\<close>

text \<open>
  A \<open>metav1.Condition\<close>. Its \<open>Status\<close> is a string type whose constants are
  \<open>"True"\<close>, \<open>"False"\<close> and \<open>"Unknown"\<close>.
\<close>

record condition =
  cond_Type :: string
  cond_Status :: string
  cond_ObservedGeneration :: int
  cond_LastTransitionTime :: int
  cond_Reason :: string
  cond_Message :: string

definition ConditionTrue :: string where
  "ConditionTrue = ''True''"

text \<open>
  The first loop of \<open>conditionsReady\<close>: the map \<open>actualConditions\<close> is filled in the order
  of the slice, so a later condition of a type overwrites an earlier one.
\<close>

definition actualConditions :: "condition list \<Rightarrow> (string \<rightharpoonup> bool)" where
  "actualConditions objConditions =
     foldl (\<lambda>m c. m(cond_Type c \<mapsto> (cond_Status c = ConditionTrue))) Map.empty objConditions"

text \<open>Indexing a Go \<open>map[string]bool\<close>: a missing key reads as the zero value \<open>false\<close>.\<close>

definition map_index :: "(string \<rightharpoonup> bool) \<Rightarrow> string \<Rightarrow> bool" where
  "map_index m k = (case m k of None \<Rightarrow> False | Some b \<Rightarrow> b)"

text \<open>
  \<open>conditionsReady\<close>, on the slice that \<open>*obj.GetConditions()\<close> yields. The required
  conditions are a Go \<open>map[string]bool\<close>, given here by its entries; the second loop returns
  \<open>false\<close> at the first entry that is required and not true, otherwise \<open>true\<close>, which does
  not depend on the order in which the entries are visited.
\<close>

definition conditionsReady :: "condition list \<Rightarrow> (string \<times> bool) list \<Rightarrow> bool" where
  "conditionsReady objConditions requiredConditions =
     list_all (\<lambda>(condition, required).
        \<not> (required \<and> \<not> map_index (actualConditions objConditions) condition))
       requiredConditions"

subsection \<open>Slices and \<open>append\<close>\<close>

text \<open>
  A Go slice is a header (array, offset, length, capacity) over a backing array that other
  slices may share. The backing arrays live in a store, a list of arrays addressed by
  position; a slice passed to a function is a copy of the header over the same store.
  \<open>slice_elems\<close> is what a slice shows: the elements within its length.
\<close>

record slice =
  sl_array :: nat
  sl_off :: nat
  sl_len :: nat
  sl_cap :: nat

type_synonym 'a arrays = "'a list list"

definition nil_slice :: slice where
  "nil_slice = \<lparr>sl_array = 0, sl_off = 0, sl_len = 0, sl_cap = 0\<rparr>"

definition slice_elems :: "'a arrays \<Rightarrow> slice \<Rightarrow> 'a list" where
  "slice_elems h s = take (sl_len s) (drop (sl_off s) (h ! sl_array s))"

text \<open>A slice of the program lies within its array; a slice without capacity (as \<open>nil\<close>) has none.\<close>

definition slice_ok :: "'a arrays \<Rightarrow> slice \<Rightarrow> bool" where
  "slice_ok h s =
     (sl_len s \<le> sl_cap s \<and>
      (sl_cap s = 0 \<or> (sl_array s < length h \<and> sl_off s + sl_cap s \<le> length (h ! sl_array s))))"

text \<open>
  The capacity the runtime gives the new array when \<open>append\<close> of one element finds the
  old one full (\<open>growslice\<close>, before it rounds up to an allocation size class): at least
  one more than the old capacity.
\<close>

definition growcap :: "nat \<Rightarrow> nat" where
  "growcap oldcap =
     (if oldcap = 0 then 1
      else if oldcap < 256 then 2 * oldcap
      else oldcap + (oldcap + 768) div 4)"

text \<open>
  \<open>append(s, x)\<close>: with spare capacity the element is stored in the shared array right
  after the slice's length; otherwise a new array is allocated, the elements are copied and
  the rest of the new array holds the zero value. The result is the new header.
\<close>

definition append1 :: "'a \<Rightarrow> 'a arrays \<Rightarrow> slice \<Rightarrow> 'a \<Rightarrow> slice \<times> 'a arrays" where
  "append1 zero h s x =
     (if sl_len s < sl_cap s then
        (s\<lparr>sl_len := sl_len s + 1\<rparr>,
         h[sl_array s := (h ! sl_array s)[sl_off s + sl_len s := x]])
      else
        (\<lparr>sl_array = length h, sl_off = 0, sl_len = sl_len s + 1, sl_cap = growcap (sl_cap s)\<rparr>,
         h @ [slice_elems h s @ [x] @ replicate (growcap (sl_cap s) - (sl_len s + 1)) zero]))"

subsection \<open>API objects\<close>

text \<open>
  The Kubernetes and Substratus API types, with the fields that the code sets or reads. A
  Go \<open>map[string]string\<close> is a map; a pointer field that may be \<open>nil\<close> is an option. The
  declarations of \<open>apiv1.Dataset\<close> and \<open>apiv1.Model\<close> are not among the sources; their
  fields are named after the paths by which the code reads them (\<open>dataset.Status.URL\<close> is
  \<open>Status_URL\<close>).
\<close>

record CSIVolumeSource =
  Driver :: string
  CSI_ReadOnly :: "bool option"
  VolumeAttributes :: "string \<rightharpoonup> string"

record Volume =
  Volume_Name :: string
  CSI :: "CSIVolumeSource option"

record VolumeMount =
  VolumeMount_Name :: string
  ReadOnly :: bool
  MountPath :: string
  SubPath :: string

definition zero_Volume :: Volume where
  "zero_Volume = \<lparr>Volume_Name = [], CSI = None\<rparr>"

definition zero_VolumeMount :: VolumeMount where
  "zero_VolumeMount = \<lparr>VolumeMount_Name = [], ReadOnly = False, MountPath = [], SubPath = []\<rparr>"

record EnvVar =
  EnvVar_Name :: string
  EnvVar_Value :: string

record Container =
  Container_Name :: string
  Image :: string
  Args :: "string list"
  Env :: "EnvVar list"
  VolumeMounts :: "VolumeMount list"

record PodSecurityContext =
  RunAsUser :: "int option"
  RunAsGroup :: "int option"
  FSGroup :: "int option"

record PodSpec =
  SecurityContext :: "PodSecurityContext option"
  ServiceAccountName :: string
  Containers :: "Container list"
  Volumes :: "Volume list"
  RestartPolicy :: string

record OwnerReference =
  Owner_Kind :: string
  Owner_Name :: string
  Owner_UID :: string
  Owner_Controller :: bool

record Job =
  Job_Name :: string
  Job_Namespace :: string
  Job_OwnerReferences :: "OwnerReference list"
  Template_Annotations :: "string \<rightharpoonup> string"
  Template_Spec :: PodSpec
  Status_Succeeded :: int

record ServiceAccount =
  ServiceAccount_Name :: string
  ServiceAccount_Namespace :: string
  ServiceAccount_Annotations :: "(string \<rightharpoonup> string) option"

record Dataset =
  Dataset_Name :: string
  Dataset_Namespace :: string
  Dataset_UID :: string
  Spec_Filename :: string
  Spec_Container_Image :: string
  Status_URL :: string
  Status_Ready :: bool
  Status_Conditions :: "condition list"

record Model =
  Model_Name :: string
  Model_Namespace :: string
  Model_Status_URL :: string

text \<open>
  \<open>cloud.Context\<close>, declared in \<open>internal/cloud\<close> (not among the sources): the name of the
  cloud, which the code compares with the constant \<open>cloud.GCP\<close>, and the project read as
  \<open>CloudContext.GCP.ProjectID\<close>.
\<close>

datatype cloud_Name = GCP | OtherCloud string

record CloudContext =
  cloud_Name :: cloud_Name
  GCP_ProjectID :: string

subsection \<open>\<open>mountDataset\<close> and \<open>mountSavedModel\<close>\<close>

text \<open>
  The two slices of the caller are arguments, that is, copies of the caller's headers. The
  body assigns the results of \<open>append\<close> to these copies; the function returns the error
  only. \<open>mountDataset_body\<close> is the body, with the local headers as they are at the
  \<open>return\<close>; \<open>mountDataset\<close> is what the caller gets: the store and the error.
\<close>

record mount_store =
  volume_arrays :: "Volume arrays"
  mount_arrays :: "VolumeMount arrays"

definition mountDataset_body ::
    "mount_store \<Rightarrow> slice \<Rightarrow> slice \<Rightarrow> Dataset \<Rightarrow> (slice \<times> slice) \<times> mount_store \<times> error option" where
  "mountDataset_body h volumes volumeMounts dataset =
     (case parseBucketURL (Status_URL dataset) of
        (bucket, subpath, Some err) \<Rightarrow>
          ((volumes, volumeMounts), h, Some (Errorf ''parsing dataset url: '' err))
      | (bucket, subpath, None) \<Rightarrow>
          (let (volumes', va) = append1 zero_Volume (volume_arrays h) volumes
                 \<lparr>Volume_Name = ''data'',
                  CSI = Some \<lparr>Driver = ''gcsfuse.csi.storage.gke.io'',
                    CSI_ReadOnly = Some True,
                    VolumeAttributes = [''bucketName'' \<mapsto> bucket,
                      ''mountOptions'' \<mapsto> ''implicit-dirs,uid=0,gid=3003'']\<rparr>\<rparr>;
               (volumeMounts', ma) = append1 zero_VolumeMount (mount_arrays h) volumeMounts
                 \<lparr>VolumeMount_Name = ''data'', ReadOnly = True, MountPath = ''/data'',
                  SubPath = subpath\<rparr>
           in ((volumes', volumeMounts'), \<lparr>volume_arrays = va, mount_arrays = ma\<rparr>, None)))"

definition mountDataset ::
    "mount_store \<Rightarrow> slice \<Rightarrow> slice \<Rightarrow> Dataset \<Rightarrow> mount_store \<times> error option" where
  "mountDataset h volumes volumeMounts dataset =
     snd (mountDataset_body h volumes volumeMounts dataset)"

definition mountSavedModel_body ::
    "mount_store \<Rightarrow> slice \<Rightarrow> slice \<Rightarrow> Model \<Rightarrow> (slice \<times> slice) \<times> mount_store \<times> error option" where
  "mountSavedModel_body h volumes volumeMounts savedModel =
     (case parseBucketURL (Model_Status_URL savedModel) of
        (bucket, subpath, Some err) \<Rightarrow>
          ((volumes, volumeMounts), h, Some (Errorf ''parsing dataset url: '' err))
      | (bucket, subpath, None) \<Rightarrow>
          (let (volumes', va) = append1 zero_Volume (volume_arrays h) volumes
                 \<lparr>Volume_Name = ''saved-model'',
                  CSI = Some \<lparr>Driver = ''gcsfuse.csi.storage.gke.io'',
                    CSI_ReadOnly = Some True,
                    VolumeAttributes = [''bucketName'' \<mapsto> bucket,
                      ''mountOptions'' \<mapsto> ''implicit-dirs,uid=0,gid=3003'']\<rparr>\<rparr>;
               (volumeMounts', ma) = append1 zero_VolumeMount (mount_arrays h) volumeMounts
                 \<lparr>VolumeMount_Name = ''saved-model'', ReadOnly = True,
                  MountPath = ''/model/saved'', SubPath = subpath\<rparr>
           in ((volumes', volumeMounts'), \<lparr>volume_arrays = va, mount_arrays = ma\<rparr>, None)))"

definition mountSavedModel ::
    "mount_store \<Rightarrow> slice \<Rightarrow> slice \<Rightarrow> Model \<Rightarrow> mount_store \<times> error option" where
  "mountSavedModel h volumes volumeMounts savedModel =
     snd (mountSavedModel_body h volumes volumeMounts savedModel)"

section \<open>The cluster seen through the client\<close>

subsection \<open>API errors\<close>

text \<open>
  \<open>apierrors.ReasonForError\<close> and \<open>reasonAndCodeForError\<close> look through the chain of wrapped
  errors for an API status error and give its reason, and its code; without one the
  reason is unknown and the code is \<open>0\<close>. \<open>IsAlreadyExists\<close> compares the reason.
  \<open>IsNotFound\<close> holds for the reason \<open>NotFound\<close>, and also for the HTTP code \<open>404\<close> under a
  reason that is not among \<open>knownReasons\<close>. \<open>client.IgnoreAlreadyExists\<close> and
  \<open>client.IgnoreNotFound\<close> return \<open>nil\<close> for such an error (and for \<open>nil\<close>) and the error
  itself otherwise.
\<close>

fun ReasonForError :: "error \<Rightarrow> StatusReason" where
  "ReasonForError (StatusError reason code msg) = reason"
| "ReasonForError (Errorf p err) = ReasonForError err"
| "ReasonForError (URLError op u err) = ReasonForError err"
| "ReasonForError err = StatusReasonUnknown"

fun reasonAndCodeForError :: "error \<Rightarrow> StatusReason \<times> int" where
  "reasonAndCodeForError (StatusError reason code msg) = (reason, code)"
| "reasonAndCodeForError (Errorf p err) = reasonAndCodeForError err"
| "reasonAndCodeForError (URLError op u err) = reasonAndCodeForError err"
| "reasonAndCodeForError err = (StatusReasonUnknown, 0)"

definition knownReasons :: "StatusReason list" where
  "knownReasons =
     [''Unauthorized'', ''Forbidden'', ''NotFound'', ''AlreadyExists'', ''Conflict'', ''Gone'',
      ''Invalid'', ''ServerTimeout'', ''Timeout'', ''TooManyRequests'', ''BadRequest'',
      ''MethodNotAllowed'', ''NotAcceptable'', ''RequestEntityTooLarge'',
      ''UnsupportedMediaType'', ''InternalError'', ''Expired'', ''ServiceUnavailable'']"

definition IsNotFound :: "error \<Rightarrow> bool" where
  "IsNotFound err =
     (let (reason, code) = reasonAndCodeForError err
      in reason = StatusReasonNotFound \<or> (reason \<notin> set knownReasons \<and> code = 404))"

definition IgnoreAlreadyExists :: "error option \<Rightarrow> error option" where
  "IgnoreAlreadyExists err =
     (case err of
        None \<Rightarrow> None
      | Some e \<Rightarrow> if ReasonForError e = StatusReasonAlreadyExists then None else Some e)"

definition IgnoreNotFound :: "error option \<Rightarrow> error option" where
  "IgnoreNotFound err =
     (case err of
        None \<Rightarrow> None
      | Some e \<Rightarrow> if IsNotFound e then None else Some e)"

subsection \<open>Results\<close>

text \<open>
  \<open>ctrl.Result\<close> and the package's \<open>result\<close>, which embeds it and adds \<open>success\<close>.
  \<open>result{}\<close> is the zero value; \<open>result{success: true}\<close> sets the flag only.
\<close>

record ctrl_Result =
  Requeue :: bool
  RequeueAfter :: int

record result =
  Result :: ctrl_Result
  success :: bool

definition zero_Result :: ctrl_Result where
  "zero_Result = \<lparr>Requeue = False, RequeueAfter = 0\<rparr>"

definition zero_result :: result where
  "zero_result = \<lparr>Result = zero_Result, success = False\<rparr>"

definition success_result :: result where
  "success_result = \<lparr>Result = zero_Result, success = True\<rparr>"

subsection \<open>The world: cluster and trace\<close>

text \<open>
  The reconciler acts on the cluster through interfaces only. What lies behind them is a
  state of any type \<open>'w\<close>, changed by nothing but the calls. Next to it the world keeps a
  trace: every call through the client and every stage of \<open>Reconcile\<close> is written to it,
  so that one can say which calls an invocation made and in which order. The trace is
  never read by the code.
\<close>

type_synonym ObjectKey = "string \<times> string"

datatype stage =
    StageContainer
  | StageData
  | StageReadiness "(string \<times> bool) list"

datatype event =
    Call_Get_Dataset ObjectKey
  | Call_CreateOrUpdate_ServiceAccount ObjectKey
  | Call_Create_Job ObjectKey
  | Call_Get_Job ObjectKey
  | Stage_Begin stage
  | Stage_End stage bool

record 'w world =
  cluster :: 'w
  trace :: "event list"

text \<open>
  What the reconciler is given. \<open>Get_Dataset\<close>, \<open>Create_Job\<close> and \<open>Get_Job\<close> are the methods
  of \<open>client.Client\<close> at the types the code calls them with (\<open>Create\<close> and \<open>Get\<close> fill in
  the object they are handed); \<open>CreateOrUpdate\<close> and \<open>SetControllerReference\<close> are the
  functions of \<open>controllerutil\<close>, the latter with the reconciler's \<open>Scheme\<close>.
  \<open>ReconcileContainer\<close> (a method of the embedded \<open>ContainerReconciler\<close>) and
  \<open>reconcileReadiness\<close> are functions of the package whose code is not among the sources.
  All of them are parameters: nothing is assumed about what they do.
\<close>

record 'w DatasetReconciler =
  Get_Dataset :: "ObjectKey \<Rightarrow> 'w \<Rightarrow> (error + Dataset) \<times> 'w"
  Create_Job :: "Job \<Rightarrow> 'w \<Rightarrow> (Job \<times> error option) \<times> 'w"
  Get_Job :: "ObjectKey \<Rightarrow> Job \<Rightarrow> 'w \<Rightarrow> (Job \<times> error option) \<times> 'w"
  CreateOrUpdate ::
    "ServiceAccount \<Rightarrow> (ServiceAccount \<Rightarrow> ServiceAccount \<times> error option) \<Rightarrow> 'w \<Rightarrow>
       (ServiceAccount \<times> error option) \<times> 'w"
  SetControllerReference :: "Dataset \<Rightarrow> Job \<Rightarrow> Job \<times> error option"
  ReconcileContainer :: "Dataset \<Rightarrow> 'w \<Rightarrow> ((result \<times> error option) \<times> Dataset) \<times> 'w"
  reconcileReadiness ::
    "Dataset \<Rightarrow> (string \<times> bool) list \<Rightarrow> 'w \<Rightarrow> ((result \<times> error option) \<times> Dataset) \<times> 'w"
  CloudContext :: CloudContext

text \<open>A call through an interface: it is written to the trace and acts on the cluster.\<close>

definition call :: "event \<Rightarrow> ('w \<Rightarrow> 'a \<times> 'w) \<Rightarrow> 'w world \<Rightarrow> 'a \<times> 'w world" where
  "call ev f w =
     (let (a, c) = f (cluster w) in (a, \<lparr>cluster = c, trace = trace w @ [ev]\<rparr>))"

definition emit :: "event \<Rightarrow> 'w world \<Rightarrow> 'w world" where
  "emit ev w = w\<lparr>trace := trace w @ [ev]\<rparr>"

section \<open>The Dataset reconciler\<close>

subsection \<open>\<open>reconcileJob\<close>\<close>

text \<open>
  \<open>obj\<close> and \<open>condition\<close> are parameters that the body does not use. \<open>job\<close> is a pointer:
  \<open>Create\<close> and \<open>Get\<close> write to the object, and \<open>Succeeded\<close> is read from what \<open>Get\<close> left
  there. Where \<open>IgnoreAlreadyExists(err)\<close> is not \<open>nil\<close> it is \<open>err\<close> itself, the error that
  is wrapped.
\<close>

definition ObjectKeyFromObject :: "Job \<Rightarrow> ObjectKey" where
  "ObjectKeyFromObject job = (Job_Namespace job, Job_Name job)"

definition reconcileJob ::
    "'w DatasetReconciler \<Rightarrow> 'o \<Rightarrow> Job \<Rightarrow> string \<Rightarrow> 'w world \<Rightarrow> (result \<times> error option) \<times> 'w world" where
  "reconcileJob c obj job condition w =
     (let ((job, err), w) = call (Call_Create_Job (ObjectKeyFromObject job)) (Create_Job c job) w in
        case IgnoreAlreadyExists err of
          Some e \<Rightarrow> ((zero_result, Some (Errorf ''creating Job: '' e)), w)
        | None \<Rightarrow>
            (let ((job, err), w) =
                   call (Call_Get_Job (ObjectKeyFromObject job))
                     (Get_Job c (ObjectKeyFromObject job) job) w
             in case err of
                  Some e \<Rightarrow> ((zero_result, Some (Errorf ''geting Job: '' e)), w)
                | None \<Rightarrow>
                    if Status_Succeeded job < 1 then ((zero_result, None), w)
                    else ((success_result, None), w)))"

subsection \<open>\<open>authNServiceAccount\<close> and \<open>loadJob\<close>\<close>

definition dataLoaderServiceAccountName :: string where
  "dataLoaderServiceAccountName = ''data-loader''"

definition authNServiceAccount :: "CloudContext \<Rightarrow> ServiceAccount \<Rightarrow> ServiceAccount \<times> error option" where
  "authNServiceAccount cc sa =
     (let annotations =
            (case ServiceAccount_Annotations sa of None \<Rightarrow> Map.empty | Some m \<Rightarrow> m)
      in case cloud_Name cc of
           GCP \<Rightarrow>
             (sa\<lparr>ServiceAccount_Annotations :=
                  Some (annotations(''iam.gke.io/gcp-service-account'' \<mapsto>
                    ''substratus-'' @ ServiceAccount_Name sa @ ''@'' @ GCP_ProjectID cc @
                    ''.iam.gserviceaccount.com''))\<rparr>,
              None)
         | OtherCloud name \<Rightarrow>
             (sa\<lparr>ServiceAccount_Annotations := Some annotations\<rparr>,
              Some (ErrorfQ ''unsupported cloud type: '' name [])))"

text \<open>
  \<open>loadJob\<close> builds the Job and, for the cloud \<open>GCP\<close>, assigns \<open>dataset.Status.URL\<close>
  through the pointer it is given, before it sets the owner reference. It returns the
  Dataset as it leaves it, and either the error or the Job.
\<close>

definition loadJob :: "'w DatasetReconciler \<Rightarrow> Dataset \<Rightarrow> Dataset \<times> (error + Job)" where
  "loadJob r dataset =
     (let loaderContainerName = ''loader'';
          job = \<lparr>Job_Name = Dataset_Name dataset @ ''-data-loader'',
                 Job_Namespace = Dataset_Namespace dataset,
                 Job_OwnerReferences = [],
                 Template_Annotations =
                   [''kubectl.kubernetes.io/default-container'' \<mapsto> loaderContainerName],
                 Template_Spec =
                   \<lparr>SecurityContext = Some \<lparr>RunAsUser = Some 1001, RunAsGroup = Some 2002,
                      FSGroup = Some 3003\<rparr>,
                    ServiceAccountName = dataLoaderServiceAccountName,
                    Containers =
                      [\<lparr>Container_Name = loaderContainerName,
                        Image = Spec_Container_Image dataset,
                        Args = [''load.sh''],
                        Env = [\<lparr>EnvVar_Name = ''LOAD_DATA_PATH'',
                                EnvVar_Value = ''/data/'' @ Spec_Filename dataset\<rparr>],
                        VolumeMounts =
                          [\<lparr>VolumeMount_Name = ''data'', ReadOnly = False,
                            MountPath = ''/data'', SubPath = Dataset_UID dataset @ ''/data''\<rparr>,
                           \<lparr>VolumeMount_Name = ''data'', ReadOnly = False,
                            MountPath = ''/dataset/logs'',
                            SubPath = Dataset_UID dataset @ ''/logs''\<rparr>]\<rparr>],
                    Volumes = [],
                    RestartPolicy = ''Never''\<rparr>,
                 Status_Succeeded = 0\<rparr>;
          (job, dataset) =
            (case cloud_Name (CloudContext r) of
               GCP \<Rightarrow>
                 (job\<lparr>Template_Annotations :=
                        (Template_Annotations job)(''gke-gcsfuse/volumes'' \<mapsto> ''true''),
                      Template_Spec :=
                        (Template_Spec job)\<lparr>Volumes := Volumes (Template_Spec job) @
                          [\<lparr>Volume_Name = ''data'',
                            CSI = Some \<lparr>Driver = ''gcsfuse.csi.storage.gke.io'',
                              CSI_ReadOnly = None,
                              VolumeAttributes =
                                [''bucketName'' \<mapsto>
                                   GCP_ProjectID (CloudContext r) @ ''-substratus-datasets'',
                                 ''mountOptions'' \<mapsto> ''implicit-dirs,uid=1001,gid=3003'']\<rparr>\<rparr>]\<rparr>\<rparr>,
                  dataset\<lparr>Status_URL :=
                    ''gcs://'' @ GCP_ProjectID (CloudContext r) @ ''-substratus-datasets'' @
                    ''/'' @ Dataset_UID dataset @ ''/data/'' @ Spec_Filename dataset\<rparr>)
             | OtherCloud name \<Rightarrow> (job, dataset))
      in case SetControllerReference r dataset job of
           (job, Some err) \<Rightarrow> (dataset, Inl (Errorf ''setting owner reference: '' err))
         | (job, None) \<Rightarrow> (dataset, Inr job))"

subsection \<open>\<open>reconcileData\<close>\<close>

text \<open>
  The Dataset is a pointer of the caller: the function returns it as it leaves it. The
  error of \<open>loadJob\<close> is written to the log and dropped.
\<close>

definition reconcileData ::
    "'w DatasetReconciler \<Rightarrow> Dataset \<Rightarrow> 'w world \<Rightarrow> ((result \<times> error option) \<times> Dataset) \<times> 'w world" where
  "reconcileData r dataset w =
     (if Status_URL dataset \<noteq> [] then (((success_result, None), dataset), w)
      else
        (let loaderSA = \<lparr>ServiceAccount_Name = dataLoaderServiceAccountName,
                          ServiceAccount_Namespace = Dataset_Namespace dataset,
                          ServiceAccount_Annotations = None\<rparr>;
             ((loaderSA, err), w) =
               call (Call_CreateOrUpdate_ServiceAccount
                       (ServiceAccount_Namespace loaderSA, ServiceAccount_Name loaderSA))
                 (CreateOrUpdate r loaderSA (authNServiceAccount (CloudContext r))) w
         in case err of
              Some e \<Rightarrow>
                (((zero_result, Some (Errorf ''failed to create or update service account: '' e)),
                  dataset), w)
            | None \<Rightarrow>
                (case loadJob r dataset of
                   (dataset, Inl e) \<Rightarrow> (((zero_result, None), dataset), w)
                 | (dataset, Inr job) \<Rightarrow>
                     (let ((result, err), w) = reconcileJob r dataset job ''loading'' w in
                        if \<not> success result then (((result, err), dataset), w)
                        else (((success_result, None), dataset), w)))))"

subsection \<open>\<open>Reconcile\<close>\<close>

text \<open>
  Modelled from the spec: the condition types \<open>apiv1.ConditionContainerReady\<close> and
  \<open>apiv1.ConditionDataReady\<close> are constants of \<open>api/v1\<close>, which is not among the sources;
  the spec names the required set of a Dataset \<open>{ContainerReady, DataReady}\<close>. The map
  literal that \<open>Reconcile\<close> passes on has these two keys, both with the value \<open>true\<close>.
\<close>

definition ConditionContainerReady :: string where
  "ConditionContainerReady = ''ContainerReady''"

definition ConditionDataReady :: string where
  "ConditionDataReady = ''DataReady''"

definition Dataset_required :: "(string \<times> bool) list" where
  "Dataset_required = [(ConditionContainerReady, True), (ConditionDataReady, True)]"

text \<open>
  A stage of \<open>Reconcile\<close>: its beginning and its end, with the \<open>success\<close> it returned, go to
  the trace.
\<close>

definition run_stage ::
    "stage \<Rightarrow> ('w world \<Rightarrow> ((result \<times> error option) \<times> Dataset) \<times> 'w world) \<Rightarrow> 'w world \<Rightarrow>
       ((result \<times> error option) \<times> Dataset) \<times> 'w world" where
  "run_stage s f w =
     (let (((res, err), dataset), w) = f (emit (Stage_Begin s) w)
      in (((res, err), dataset), emit (Stage_End s (success res)) w))"

definition on_cluster :: "('w \<Rightarrow> 'a \<times> 'w) \<Rightarrow> 'w world \<Rightarrow> 'a \<times> 'w world" where
  "on_cluster f w = (let (a, c) = f (cluster w) in (a, w\<lparr>cluster := c\<rparr>))"

definition Reconcile ::
    "'w DatasetReconciler \<Rightarrow> ObjectKey \<Rightarrow> 'w world \<Rightarrow> (ctrl_Result \<times> error option) \<times> 'w world" where
  "Reconcile r req w =
     (case call (Call_Get_Dataset req) (Get_Dataset r req) w of
        (Inl err, w) \<Rightarrow> ((zero_Result, IgnoreNotFound (Some err)), w)
      | (Inr dataset, w) \<Rightarrow>
          (let (((result, err), dataset), w) =
                 run_stage StageContainer (on_cluster (ReconcileContainer r dataset)) w
           in if \<not> success result then ((Result result, err), w)
              else
                (let (((result, err), dataset), w) =
                       run_stage StageData (reconcileData r dataset) w
                 in if \<not> success result then ((Result result, err), w)
                    else
                      (let (((result, err), dataset), w) =
                             run_stage (StageReadiness Dataset_required)
                               (on_cluster (reconcileReadiness r dataset Dataset_required)) w
                       in ((Result result, err), w)))))"

text \<open>The stage events of a trace.\<close>

fun is_stage_event :: "event \<Rightarrow> bool" where
  "is_stage_event (Stage_Begin s) = True"
| "is_stage_event (Stage_End s b) = True"
| "is_stage_event ev = False"

text \<open>The calls on the loader's service account and on the loader job.\<close>

fun is_loader_call :: "event \<Rightarrow> bool" where
  "is_loader_call (Call_CreateOrUpdate_ServiceAccount key) = True"
| "is_loader_call (Call_Create_Job key) = True"
| "is_loader_call (Call_Get_Job key) = True"
| "is_loader_call ev = False"

section \<open>An in-memory cluster\<close>

text \<open>
  A small cluster that implements the interfaces, to run the definitions on concrete
  inputs: it stores the objects it is given, \<open>Create\<close> refuses a name that exists, \<open>Get\<close>
  fails for a name that does not, \<open>CreateOrUpdate\<close> reads the object, applies the mutation
  and writes the object back unless the mutation failed. The container stage has nothing
  to do in it, and the readiness stage reports \<open>conditionsReady\<close>. \<open>known\<close> says whether
  the scheme knows the kind of the owner; \<open>SetControllerReference\<close> fails when it does not.
\<close>

record memory_cluster =
  stored_datasets :: "Dataset list"
  stored_jobs :: "Job list"
  stored_serviceAccounts :: "ServiceAccount list"

definition NotFound :: error where
  "NotFound = StatusError StatusReasonNotFound 404 ''not found''"

definition AlreadyExists :: error where
  "AlreadyExists = StatusError StatusReasonAlreadyExists 409 ''already exists''"

definition memory_Get_Dataset :: "ObjectKey \<Rightarrow> memory_cluster \<Rightarrow> (error + Dataset) \<times> memory_cluster" where
  "memory_Get_Dataset key c =
     (case find (\<lambda>d. (Dataset_Namespace d, Dataset_Name d) = key) (stored_datasets c) of
        None \<Rightarrow> (Inl NotFound, c)
      | Some d \<Rightarrow> (Inr d, c))"

definition memory_Create_Job :: "Job \<Rightarrow> memory_cluster \<Rightarrow> (Job \<times> error option) \<times> memory_cluster" where
  "memory_Create_Job job c =
     (case find (\<lambda>j. ObjectKeyFromObject j = ObjectKeyFromObject job) (stored_jobs c) of
        None \<Rightarrow> ((job, None), c\<lparr>stored_jobs := stored_jobs c @ [job]\<rparr>)
      | Some j \<Rightarrow> ((job, Some AlreadyExists), c))"

definition memory_Get_Job :: "ObjectKey \<Rightarrow> Job \<Rightarrow> memory_cluster \<Rightarrow> (Job \<times> error option) \<times> memory_cluster" where
  "memory_Get_Job key job c =
     (case find (\<lambda>j. ObjectKeyFromObject j = key) (stored_jobs c) of
        None \<Rightarrow> ((job, Some NotFound), c)
      | Some j \<Rightarrow> ((j, None), c))"

definition memory_CreateOrUpdate ::
    "ServiceAccount \<Rightarrow> (ServiceAccount \<Rightarrow> ServiceAccount \<times> error option) \<Rightarrow> memory_cluster \<Rightarrow>
       (ServiceAccount \<times> error option) \<times> memory_cluster" where
  "memory_CreateOrUpdate sa f c =
     (let same = (\<lambda>x. ServiceAccount_Namespace x = ServiceAccount_Namespace sa \<and>
                       ServiceAccount_Name x = ServiceAccount_Name sa)
      in case find same (stored_serviceAccounts c) of
           None \<Rightarrow>
             (case f sa of
                (sa', Some err) \<Rightarrow> ((sa', Some err), c)
              | (sa', None) \<Rightarrow>
                  ((sa', None), c\<lparr>stored_serviceAccounts := stored_serviceAccounts c @ [sa']\<rparr>))
         | Some existing \<Rightarrow>
             (case f existing of
                (sa', Some err) \<Rightarrow> ((sa', Some err), c)
              | (sa', None) \<Rightarrow>
                  ((sa', None),
                   c\<lparr>stored_serviceAccounts :=
                       map (\<lambda>x. if same x then sa' else x) (stored_serviceAccounts c)\<rparr>)))"

definition memory_SetControllerReference :: "bool \<Rightarrow> Dataset \<Rightarrow> Job \<Rightarrow> Job \<times> error option" where
  "memory_SetControllerReference known owner job =
     (if known then
        (job\<lparr>Job_OwnerReferences :=
               [\<lparr>Owner_Kind = ''Dataset'', Owner_Name = Dataset_Name owner,
                 Owner_UID = Dataset_UID owner, Owner_Controller = True\<rparr>]\<rparr>, None)
      else (job, Some (ErrorString ''no kind is registered for the type v1.Dataset'')))"

definition memory_reconciler :: "bool \<Rightarrow> CloudContext \<Rightarrow> memory_cluster DatasetReconciler" where
  "memory_reconciler known cc =
     \<lparr>Get_Dataset = memory_Get_Dataset,
      Create_Job = memory_Create_Job,
      Get_Job = memory_Get_Job,
      CreateOrUpdate = memory_CreateOrUpdate,
      SetControllerReference = memory_SetControllerReference known,
      ReconcileContainer = (\<lambda>dataset c. (((success_result, None), dataset), c)),
      reconcileReadiness = (\<lambda>dataset required c.
         (((\<lparr>Result = zero_Result,
              success = conditionsReady (Status_Conditions dataset) required\<rparr>, None), dataset), c)),
      CloudContext = cc\<rparr>"

definition gcp_context :: CloudContext where
  "gcp_context = \<lparr>cloud_Name = GCP, GCP_ProjectID = ''proj''\<rparr>"

definition squad :: Dataset where
  "squad = \<lparr>Dataset_Name = ''squad'', Dataset_Namespace = ''default'', Dataset_UID = ''uid-1'',
     Spec_Filename = ''all.jsonl'', Spec_Container_Image = ''loader:v1'', Status_URL = [],
     Status_Ready = False, Status_Conditions = []\<rparr>"

definition empty_cluster :: "memory_cluster world" where
  "empty_cluster =
     \<lparr>cluster = \<lparr>stored_datasets = [], stored_jobs = [], stored_serviceAccounts = []\<rparr>,
      trace = []\<rparr>"

definition loader_job :: Job where
  "loader_job =
     \<lparr>Job_Name = ''squad-data-loader'', Job_Namespace = ''default'', Job_OwnerReferences = [],
      Template_Annotations = Map.empty,
      Template_Spec = \<lparr>SecurityContext = None, ServiceAccountName = ''data-loader'',
        Containers = [], Volumes = [], RestartPolicy = ''Never''\<rparr>,
      Status_Succeeded = 0\<rparr>"

definition cluster_with_job :: "Job \<Rightarrow> memory_cluster world" where
  "cluster_with_job job =
     \<lparr>cluster = \<lparr>stored_datasets = [], stored_jobs = [job], stored_serviceAccounts = []\<rparr>,
      trace = []\<rparr>"

section \<open>Properties\<close>

subsection \<open>\<open>nextPowOf2\<close>\<close>

lemma sint_pow2:
  assumes i: "i \<le> 62"
  shows "sint ((2::64 word) ^ i) = 2 ^ i"
proof -
  have "(2::int) ^ i \<le> 2 ^ 62"
    using i by (intro power_increasing) auto
  then have lt: "(2::int) ^ i < 2 ^ 63"
    by simp
  have ge: "- (2 ^ 63) \<le> (2::int) ^ i"
    by (rule order_trans [of _ 0]) simp_all
  have "(2::64 word) ^ i = word_of_int (2 ^ i)"
    by simp
  then have "sint ((2::64 word) ^ i) = signed_take_bit 63 ((2::int) ^ i)"
    by (simp only: sint_sbintrunc') simp
  also have "\<dots> = 2 ^ i"
    using ge lt by (rule signed_take_bit_int_eq_self)
  finally show ?thesis .
qed

text \<open>
  The loop invariant: \<open>k\<close> is \<open>2 ^ i\<close> with \<open>i \<le> 62\<close>, and every smaller power was below
  \<open>n\<close>. From there the loop returns a power \<open>2 ^ j\<close> that reaches \<open>n\<close>, with the one before
  it still below \<open>n\<close>.
\<close>

lemma nextPowOf2_loop_returns:
  assumes n: "sint n \<le> 2 ^ 62"
  shows "i \<le> 62 \<Longrightarrow> (i = 0 \<or> 2 ^ (i - 1) < sint n) \<Longrightarrow>
     \<exists>j. i \<le> j \<and> j \<le> 62 \<and> nextPowOf2_loop (2 ^ i) n = Some (2 ^ j) \<and>
       sint n \<le> 2 ^ j \<and> (j = 0 \<or> 2 ^ (j - 1) < sint n)"
proof (induction "62 - i" arbitrary: i)
  case 0
  then have i: "i = 62"
    by simp
  have "\<not> (2 ^ i <s n)"
    using n by (simp add: word_sless_alt sint_pow2 i)
  then have "nextPowOf2_loop (2 ^ i) n = Some (2 ^ i)"
    by (subst nextPowOf2_loop.simps) simp
  with 0 n i show ?case
    by (intro exI [of _ i]) simp
next
  case (Suc d)
  then have i: "i < 62"
    by simp
  show ?case
  proof (cases "(2::64 word) ^ i <s n")
    case True
    then have lt: "2 ^ i < sint n"
      using i by (simp add: word_sless_alt sint_pow2)
    have step: "nextPowOf2_loop (2 ^ i) n = nextPowOf2_loop (2 ^ Suc i) n"
      using True by (subst nextPowOf2_loop.simps) (simp add: push_bit_eq_mult mult.commute)
    have "\<exists>j. Suc i \<le> j \<and> j \<le> 62 \<and> nextPowOf2_loop (2 ^ Suc i) n = Some (2 ^ j) \<and>
        sint n \<le> 2 ^ j \<and> (j = 0 \<or> 2 ^ (j - 1) < sint n)"
      using Suc.hyps(2) i lt by (intro Suc.hyps(1)) simp_all
    then show ?thesis
      unfolding step by (metis Suc_leD)
  next
    case False
    then have ge: "sint n \<le> 2 ^ i"
      using i by (simp add: word_sless_alt sint_pow2)
    have "nextPowOf2_loop (2 ^ i) n = Some (2 ^ i)"
      using False by (subst nextPowOf2_loop.simps) simp
    with ge Suc.prems show ?thesis
      by (intro exI [of _ i]) simp
  qed
qed

text \<open>
  Claim C9. For every \<open>int64\<close> value \<open>n\<close> with \<open>n \<le> 2 ^ 62\<close>, \<open>nextPowOf2 n\<close> returns (the
  loop ends), and what it returns is a power of two \<open>2 ^ j\<close> (\<open>j \<le> 62\<close>, so it is that
  number as a signed value too) which is at least \<open>max n 1\<close> and is at most every power of
  two that is at least \<open>max n 1\<close>; for \<open>n \<le> 1\<close> it returns \<open>1\<close>.
\<close>

theorem nextPowOf2_least_power:
  assumes n: "sint n \<le> 2 ^ 62"
  shows "\<exists>j\<le>62. nextPowOf2 n = Some (2 ^ j) \<and> sint ((2::64 word) ^ j) = 2 ^ j \<and>
      max (sint n) 1 \<le> 2 ^ j \<and>
      (\<forall>m. max (sint n) 1 \<le> 2 ^ m \<longrightarrow> (2::int) ^ j \<le> 2 ^ m) \<and>
      (sint n \<le> 1 \<longrightarrow> nextPowOf2 n = Some 1)"
proof -
  obtain j where j: "j \<le> 62" "nextPowOf2_loop (2 ^ 0) n = Some (2 ^ j)"
      "sint n \<le> 2 ^ j" "j = 0 \<or> 2 ^ (j - 1) < sint n"
    using nextPowOf2_loop_returns [OF n, of 0] by auto
  have ret: "nextPowOf2 n = Some (2 ^ j)"
    using j(2) by (simp add: nextPowOf2_def)
  have least: "(2::int) ^ j \<le> 2 ^ m" if m: "max (sint n) 1 \<le> 2 ^ m" for m
  proof (cases "j = 0")
    case True
    then show ?thesis by simp
  next
    case False
    with j(4) have "(2::int) ^ (j - 1) < sint n"
      by simp
    also have "sint n \<le> 2 ^ m"
      using m by simp
    finally have "j - 1 < m"
      by simp
    then have "j \<le> m"
      by simp
    then show ?thesis
      by (intro power_increasing) simp_all
  qed
  have one: "nextPowOf2 n = Some 1" if "sint n \<le> 1"
  proof -
    have "j = 0"
    proof (rule ccontr)
      assume "j \<noteq> 0"
      with j(4) have "(2::int) ^ (j - 1) < 1"
        using that by simp
      moreover have "(1::int) \<le> 2 ^ (j - 1)"
        by (rule one_le_power) simp
      ultimately show False
        by linarith
    qed
    with ret show ?thesis
      by simp
  qed
  have "max (sint n) 1 \<le> 2 ^ j"
    using j(3) by simp
  with j(1) ret least one show ?thesis
    by (intro exI [of _ j]) (simp add: sint_pow2)
qed

theorem nextPowOf2_least_power_witness:
  "sint (5::64 word) \<le> 2 ^ 62 \<and> (\<exists>j\<le>62. nextPowOf2 5 = Some (2 ^ j) \<and> max (sint (5::64 word)) 1 \<le> 2 ^ j)"
proof -
  have h: "sint (5::64 word) \<le> 2 ^ 62"
    by simp
  show ?thesis
    using h nextPowOf2_least_power [OF h] by blast
qed


subsection \<open>\<open>conditionsReady\<close>\<close>

lemma actualConditions_snoc:
  "actualConditions (xs @ [c]) = (actualConditions xs)(cond_Type c \<mapsto> (cond_Status c = ConditionTrue))"
  by (simp add: actualConditions_def)

lemma actualConditions_Nil: "actualConditions [] = Map.empty"
  by (simp add: actualConditions_def)

lemma actualConditions_filter:
  "actualConditions xs t = actualConditions (filter (\<lambda>c. cond_Type c = t) xs) t"
  by (induction xs rule: rev_induct) (simp_all add: actualConditions_snoc actualConditions_Nil)

lemma actualConditions_distinct:
  "distinct (map cond_Type xs) \<Longrightarrow>
   map_index (actualConditions xs) t \<longleftrightarrow> (\<exists>c\<in>set xs. cond_Type c = t \<and> cond_Status c = ConditionTrue)"
proof (induction xs rule: rev_induct)
  case Nil
  then show ?case by (simp add: actualConditions_Nil map_index_def)
next
  case (snoc c xs)
  then have d: "distinct (map cond_Type xs)" and new: "cond_Type c \<notin> cond_Type ` set xs"
    by simp_all
  show ?case
  proof (cases "cond_Type c = t")
    case True
    with new have "\<forall>c'\<in>set xs. cond_Type c' \<noteq> t" by (metis imageI)
    with True show ?thesis
      by (auto simp: actualConditions_snoc map_index_def)
  next
    case False
    with snoc.IH [OF d] show ?thesis
      by (auto simp: actualConditions_snoc map_index_def)
  qed
qed

lemma conditionsReady_index:
  "conditionsReady xs req \<longleftrightarrow>
     (\<forall>t. (t, True) \<in> set req \<longrightarrow> map_index (actualConditions xs) t)"
  by (auto simp: conditionsReady_def list_all_iff)

lemma actualConditions_present:
  "map_index (actualConditions xs) t \<Longrightarrow>
   \<exists>c\<in>set xs. cond_Type c = t \<and> cond_Status c = ConditionTrue"
proof (induction xs rule: rev_induct)
  case Nil
  then show ?case
    by (simp add: actualConditions_Nil map_index_def)
next
  case (snoc c xs)
  then show ?case
    by (cases "cond_Type c = t") (auto simp: actualConditions_snoc map_index_def)
qed

text \<open>
  Claim C2. When \<open>conditionsReady\<close> is true, every required type has a condition with
  status \<open>True\<close> in the status. In a status whose conditions have pairwise different types
  (the invariant of the data model) the converse holds too: \<open>conditionsReady\<close> is true if
  and only if for every required type there is a condition of that type with status
  \<open>True\<close>. A required type without a condition makes it false. A condition whose type is
  not required does not count, whatever its status: taking it out of the status leaves the
  result as it is.
\<close>

theorem conditionsReady_iff:
  "(conditionsReady objConditions required \<longrightarrow>
      (\<forall>t. (t, True) \<in> set required \<longrightarrow>
         (\<exists>c\<in>set objConditions. cond_Type c = t \<and> cond_Status c = ConditionTrue))) \<and>
    (distinct (map cond_Type objConditions) \<longrightarrow>
      (conditionsReady objConditions required \<longleftrightarrow>
        (\<forall>t. (t, True) \<in> set required \<longrightarrow>
           (\<exists>c\<in>set objConditions. cond_Type c = t \<and> cond_Status c = ConditionTrue)))) \<and>
    (\<forall>t. (t, True) \<in> set required \<and> t \<notin> cond_Type ` set objConditions \<longrightarrow>
         \<not> conditionsReady objConditions required) \<and>
    (\<forall>xs c ys. objConditions = xs @ c # ys \<and> (cond_Type c, True) \<notin> set required \<longrightarrow>
         conditionsReady objConditions required = conditionsReady (xs @ ys) required)"
proof -
  have a: "\<forall>t. (t, True) \<in> set required \<longrightarrow>
         (\<exists>c\<in>set objConditions. cond_Type c = t \<and> cond_Status c = ConditionTrue)"
    if "conditionsReady objConditions required"
    using that by (simp add: conditionsReady_index actualConditions_present)
  have a': "conditionsReady objConditions required \<longleftrightarrow>
      (\<forall>t. (t, True) \<in> set required \<longrightarrow>
         (\<exists>c\<in>set objConditions. cond_Type c = t \<and> cond_Status c = ConditionTrue))"
    if "distinct (map cond_Type objConditions)"
    by (simp add: conditionsReady_index actualConditions_distinct [OF that])
  have b: "\<not> conditionsReady objConditions required"
    if "(t, True) \<in> set required" "t \<notin> cond_Type ` set objConditions" for t
    using that a by force
  have c: "conditionsReady (xs @ c # ys) required = conditionsReady (xs @ ys) required"
    if "(cond_Type c, True) \<notin> set required" for xs c ys
  proof -
    have "actualConditions (xs @ c # ys) t = actualConditions (xs @ ys) t"
      if "(t, True) \<in> set required" for t
    proof -
      from that \<open>(cond_Type c, True) \<notin> set required\<close> have "cond_Type c \<noteq> t"
        by auto
      then show ?thesis
        by (subst actualConditions_filter, subst (2) actualConditions_filter) simp
    qed
    then have "map_index (actualConditions (xs @ c # ys)) t =
        map_index (actualConditions (xs @ ys)) t"
      if "(t, True) \<in> set required" for t
      using that by (simp add: map_index_def)
    then show ?thesis
      by (auto simp: conditionsReady_index)
  qed
  from a a' b c show ?thesis
    by blast
qed

theorem conditionsReady_iff_witness:
  "distinct (map cond_Type
      [\<lparr>cond_Type = ''ContainerReady'', cond_Status = ''True'', cond_ObservedGeneration = 0,
         cond_LastTransitionTime = 0, cond_Reason = [], cond_Message = []\<rparr>,
       \<lparr>cond_Type = ''Optional'', cond_Status = ''False'', cond_ObservedGeneration = 0,
         cond_LastTransitionTime = 0, cond_Reason = [], cond_Message = []\<rparr>]) \<and>
   conditionsReady
      [\<lparr>cond_Type = ''ContainerReady'', cond_Status = ''True'', cond_ObservedGeneration = 0,
         cond_LastTransitionTime = 0, cond_Reason = [], cond_Message = []\<rparr>,
       \<lparr>cond_Type = ''Optional'', cond_Status = ''False'', cond_ObservedGeneration = 0,
         cond_LastTransitionTime = 0, cond_Reason = [], cond_Message = []\<rparr>]
      [(''ContainerReady'', True)] \<and>
   \<not> conditionsReady
      [\<lparr>cond_Type = ''ContainerReady'', cond_Status = ''True'', cond_ObservedGeneration = 0,
         cond_LastTransitionTime = 0, cond_Reason = [], cond_Message = []\<rparr>,
       \<lparr>cond_Type = ''Optional'', cond_Status = ''False'', cond_ObservedGeneration = 0,
         cond_LastTransitionTime = 0, cond_Reason = [], cond_Message = []\<rparr>]
      [(''ContainerReady'', True), (''DataReady'', True)]"
  using conditionsReady_iff [of
      "[\<lparr>cond_Type = ''ContainerReady'', cond_Status = ''True'', cond_ObservedGeneration = 0,
         cond_LastTransitionTime = 0, cond_Reason = [], cond_Message = []\<rparr>,
       \<lparr>cond_Type = ''Optional'', cond_Status = ''False'', cond_ObservedGeneration = 0,
         cond_LastTransitionTime = 0, cond_Reason = [], cond_Message = []\<rparr>]"
      "[(''ContainerReady'', True)]"]
    conditionsReady_iff [of
      "[\<lparr>cond_Type = ''ContainerReady'', cond_Status = ''True'', cond_ObservedGeneration = 0,
         cond_LastTransitionTime = 0, cond_Reason = [], cond_Message = []\<rparr>,
       \<lparr>cond_Type = ''Optional'', cond_Status = ''False'', cond_ObservedGeneration = 0,
         cond_LastTransitionTime = 0, cond_Reason = [], cond_Message = []\<rparr>]"
      "[(''ContainerReady'', True), (''DataReady'', True)]"]
  by (simp add: ConditionTrue_def)

subsection \<open>\<open>parseBucketURL\<close>\<close>

text \<open>
  Claim C5. For the artifact URL \<open>gcs://my-bucket/a/b/c.json\<close>, \<open>parseBucketURL\<close> returns
  the bucket \<open>my-bucket\<close>, the subpath \<open>a/b\<close> and no error: the bucket is the host of the
  parsed URL, and the subpath is the directory \<open>/a/b\<close> of its path \<open>/a/b/c.json\<close> without
  the leading slash.
\<close>

theorem parseBucketURL_example:
  "parseBucketURL ''gcs://my-bucket/a/b/c.json'' = (''my-bucket'', ''a/b'', None) \<and>
   map_sum id (\<lambda>u. (Scheme u, Host u, Path u)) (Parse ''gcs://my-bucket/a/b/c.json'') =
     Inr (''gcs'', ''my-bucket'', ''/a/b/c.json'') \<and>
   Dir ''/a/b/c.json'' = ''/a/b'' \<and>
   TrimPrefix ''/a/b'' ''/'' = ''a/b''"
  by code_simp

text \<open>
  Claim C6 says that every malformed string, and \<open>not a url\<close> in particular, gets a parse
  error. \<open>url.Parse\<close> takes \<open>not a url\<close> for a relative reference whose path is the
  whole string; \<open>parseBucketURL\<close> returns for it an empty bucket, the subpath \<open>.\<close> and
  no error.
\<close>

theorem parseBucketURL_not_a_url:
  "parseBucketURL ''not a url'' = ([], ''.'', None)"
  by code_simp

lemma parse_CTL:
  "stringContainsCTLByte (fst (Cut s CHR ''#'')) \<Longrightarrow>
   Parse s = Inl (URLError ''parse'' (fst (Cut s CHR ''#'')) (ErrorString ''net/url: invalid control character in URL''))"
  by (simp add: Parse_def parse_def Cut_def)

text \<open>
  Claim C6, as amended. \<open>parseBucketURL\<close> returns an error exactly when \<open>url.Parse\<close>
  rejects the string; the error then wraps the one of \<open>url.Parse\<close> after the words
  \<open>parsing bucket url\<close>, and bucket and subpath are empty. Among the strings rejected is
  every string with an ASCII control byte before its first \<open>#\<close>. The string \<open>not a url\<close>
  is accepted, as a URL that has a path only: the bucket is empty, the subpath is \<open>.\<close> and
  there is no error.
\<close>

theorem parseBucketURL_error:
  "(snd (snd (parseBucketURL s)) \<noteq> None \<longleftrightarrow> (\<exists>err. Parse s = Inl err)) \<and>
   (\<forall>err. Parse s = Inl err \<longrightarrow>
      parseBucketURL s = ([], [], Some (Errorf ''parsing bucket url: '' err))) \<and>
   (stringContainsCTLByte (fst (Cut s CHR ''#'')) \<longrightarrow>
      parseBucketURL s = ([], [], Some (Errorf ''parsing bucket url: ''
         (URLError ''parse'' (fst (Cut s CHR ''#''))
            (ErrorString ''net/url: invalid control character in URL''))))) \<and>
   Parse ''not a url'' = Inr (empty_URL\<lparr>Path := ''not a url''\<rparr>) \<and>
   parseBucketURL ''not a url'' = ([], ''.'', None)"
proof -
  have general: "(snd (snd (parseBucketURL s)) \<noteq> None \<longleftrightarrow> (\<exists>err. Parse s = Inl err)) \<and>
   (\<forall>err. Parse s = Inl err \<longrightarrow>
      parseBucketURL s = ([], [], Some (Errorf ''parsing bucket url: '' err))) \<and>
   (stringContainsCTLByte (fst (Cut s CHR ''#'')) \<longrightarrow>
      parseBucketURL s = ([], [], Some (Errorf ''parsing bucket url: ''
         (URLError ''parse'' (fst (Cut s CHR ''#''))
            (ErrorString ''net/url: invalid control character in URL'')))))"
    by (auto simp: parseBucketURL_def parse_CTL split: sum.splits)
  have accepted: "Parse ''not a url'' = Inr (empty_URL\<lparr>Path := ''not a url''\<rparr>)"
    by code_simp
  have result: "parseBucketURL ''not a url'' = ([], ''.'', None)"
    by code_simp
  from general accepted result show ?thesis
    by blast
qed

theorem parseBucketURL_error_witness:
  "Parse [CHR 0x01] = Inl (URLError ''parse'' [CHR 0x01] (ErrorString ''net/url: invalid control character in URL'')) \<and>
   stringContainsCTLByte (fst (Cut [CHR 0x01] CHR ''#'')) \<and>
   parseBucketURL [CHR 0x01] = ([], [], Some (Errorf ''parsing bucket url: ''
         (URLError ''parse'' [CHR 0x01]
            (ErrorString ''net/url: invalid control character in URL''))))"
proof -
  have h: "stringContainsCTLByte (fst (Cut [CHR 0x01] CHR ''#''))"
    by (simp add: stringContainsCTLByte_def Cut_def)
  have c: "fst (Cut [CHR 0x01] CHR ''#'') = [CHR 0x01]"
    by (simp add: Cut_def)
  have p: "Parse [CHR 0x01] = Inl (URLError ''parse'' [CHR 0x01] (ErrorString ''net/url: invalid control character in URL''))"
    using parse_CTL [OF h] c by simp
  show ?thesis
    using parseBucketURL_error [of "[CHR 0x01]"] h p c by simp
qed

subsection \<open>\<open>reconcileJob\<close>\<close>

lemma reconcileJob_eq:
  assumes "Create_Job c job (cluster w) = ((job1, cerr), c1)"
    and "Get_Job c (ObjectKeyFromObject job1) job1 c1 = ((job2, gerr), c2)"
  shows "reconcileJob c obj job condition w =
     (case IgnoreAlreadyExists cerr of
        Some e \<Rightarrow>
          ((zero_result, Some (Errorf ''creating Job: '' e)),
           \<lparr>cluster = c1, trace = trace w @ [Call_Create_Job (ObjectKeyFromObject job)]\<rparr>)
      | None \<Rightarrow>
          ((case gerr of
              Some e \<Rightarrow> (zero_result, Some (Errorf ''geting Job: '' e))
            | None \<Rightarrow> if Status_Succeeded job2 < 1 then (zero_result, None) else (success_result, None)),
           \<lparr>cluster = c2,
            trace = trace w @ [Call_Create_Job (ObjectKeyFromObject job),
              Call_Get_Job (ObjectKeyFromObject job1)]\<rparr>))"
  using assms by (simp add: reconcileJob_def call_def split: option.splits)

lemma reconcileJob_trace:
  "\<exists>evs. trace (snd (reconcileJob c obj job condition w)) = trace w @ evs \<and>
     list_all is_loader_call evs"
proof -
  obtain job1 cerr c1 where create: "Create_Job c job (cluster w) = ((job1, cerr), c1)"
    by (metis surj_pair)
  obtain job2 gerr c2 where get:
    "Get_Job c (ObjectKeyFromObject job1) job1 c1 = ((job2, gerr), c2)"
    by (metis surj_pair)
  show ?thesis
    unfolding reconcileJob_eq [OF create get]
    by (cases "IgnoreAlreadyExists cerr") simp_all
qed

text \<open>
  Claim C1. \<open>reconcileJob\<close> first calls \<open>Create\<close>. An error of \<open>Create\<close> other than
  already-exists is returned, wrapped, with the zero result, and nothing else is called.
  After \<open>Create\<close> without error or with an already-exists error the next call is \<open>Get\<close> of
  the same job; an error of \<open>Get\<close> is returned, wrapped, with the zero result; a job with
  fewer than one success gives the zero result (no success) and no error; a job with at
  least one success gives the success result and no error. This holds for every client,
  owner, job and condition name.
\<close>

theorem reconcileJob_outcomes:
  assumes create: "Create_Job c job (cluster w) = ((job1, cerr), c1)"
    and get: "Get_Job c (ObjectKeyFromObject job1) job1 c1 = ((job2, gerr), c2)"
  shows "(\<forall>e. cerr = Some e \<and> ReasonForError e \<noteq> StatusReasonAlreadyExists \<longrightarrow>
            reconcileJob c obj job condition w =
              ((zero_result, Some (Errorf ''creating Job: '' e)),
               \<lparr>cluster = c1, trace = trace w @ [Call_Create_Job (ObjectKeyFromObject job)]\<rparr>)) \<and>
         (cerr = None \<or> (\<exists>e. cerr = Some e \<and> ReasonForError e = StatusReasonAlreadyExists) \<longrightarrow>
            snd (reconcileJob c obj job condition w) =
              \<lparr>cluster = c2,
               trace = trace w @ [Call_Create_Job (ObjectKeyFromObject job),
                 Call_Get_Job (ObjectKeyFromObject job1)]\<rparr> \<and>
            (\<forall>e. gerr = Some e \<longrightarrow>
               fst (reconcileJob c obj job condition w) =
                 (zero_result, Some (Errorf ''geting Job: '' e))) \<and>
            (gerr = None \<and> Status_Succeeded job2 < 1 \<longrightarrow>
               fst (reconcileJob c obj job condition w) = (zero_result, None)) \<and>
            (gerr = None \<and> 1 \<le> Status_Succeeded job2 \<longrightarrow>
               fst (reconcileJob c obj job condition w) = (success_result, None))) \<and>
         \<not> success zero_result \<and> success success_result"
  unfolding reconcileJob_eq [OF create get]
  by (auto simp: IgnoreAlreadyExists_def zero_result_def success_result_def)

theorem reconcileJob_outcomes_witness:
  "Create_Job (memory_reconciler True gcp_context) loader_job
      (cluster (cluster_with_job (loader_job\<lparr>Status_Succeeded := 1\<rparr>))) =
     ((loader_job, Some AlreadyExists), cluster (cluster_with_job (loader_job\<lparr>Status_Succeeded := 1\<rparr>))) \<and>
   ReasonForError AlreadyExists = StatusReasonAlreadyExists \<and>
   Get_Job (memory_reconciler True gcp_context) (ObjectKeyFromObject loader_job) loader_job
      (cluster (cluster_with_job (loader_job\<lparr>Status_Succeeded := 1\<rparr>))) =
     ((loader_job\<lparr>Status_Succeeded := 1\<rparr>, None),
      cluster (cluster_with_job (loader_job\<lparr>Status_Succeeded := 1\<rparr>))) \<and>
   fst (reconcileJob (memory_reconciler True gcp_context) squad loader_job ''loading''
      (cluster_with_job (loader_job\<lparr>Status_Succeeded := 1\<rparr>))) = (success_result, None)"
proof -
  let ?w = "cluster_with_job (loader_job\<lparr>Status_Succeeded := 1\<rparr>)"
  have create: "Create_Job (memory_reconciler True gcp_context) loader_job (cluster ?w) =
      ((loader_job, Some AlreadyExists), cluster ?w)"
    by (simp add: memory_reconciler_def memory_Create_Job_def cluster_with_job_def
        loader_job_def ObjectKeyFromObject_def)
  have get: "Get_Job (memory_reconciler True gcp_context) (ObjectKeyFromObject loader_job)
      loader_job (cluster ?w) = ((loader_job\<lparr>Status_Succeeded := 1\<rparr>, None), cluster ?w)"
    by (simp add: memory_reconciler_def memory_Get_Job_def cluster_with_job_def
        loader_job_def ObjectKeyFromObject_def)
  have reason: "ReasonForError AlreadyExists = StatusReasonAlreadyExists"
    by (simp add: AlreadyExists_def)
  show ?thesis
    using reconcileJob_outcomes [OF create get, of squad "''loading''"] create get reason
    by simp
qed

subsection \<open>\<open>reconcileData\<close>\<close>

text \<open>
  Claim C3. For a Dataset whose \<open>status.url\<close> is not empty, \<open>reconcileData\<close> returns
  success and no error, and returns the Dataset and the world as they were: the cluster is
  the same and the trace has no new call, so no job and no service account was created.
\<close>

theorem reconcileData_url_short_circuit:
  "Status_URL dataset \<noteq> [] \<Longrightarrow>
   reconcileData r dataset w = (((success_result, None), dataset), w) \<and> success success_result"
  by (simp add: reconcileData_def success_result_def)

theorem reconcileData_url_short_circuit_witness:
  "Status_URL (squad\<lparr>Status_URL := ''gcs://proj-substratus-datasets/uid-1/data/all.jsonl''\<rparr>) \<noteq> [] \<and>
   reconcileData (memory_reconciler True gcp_context)
      (squad\<lparr>Status_URL := ''gcs://proj-substratus-datasets/uid-1/data/all.jsonl''\<rparr>) empty_cluster =
     (((success_result, None),
       squad\<lparr>Status_URL := ''gcs://proj-substratus-datasets/uid-1/data/all.jsonl''\<rparr>), empty_cluster)"
proof -
  have h: "Status_URL (squad\<lparr>Status_URL := ''gcs://proj-substratus-datasets/uid-1/data/all.jsonl''\<rparr>) \<noteq> []"
    by simp
  show ?thesis
    using h reconcileData_url_short_circuit [OF h] by blast
qed

lemma loadJob_dataset:
  "fst (loadJob r dataset) =
     (case cloud_Name (CloudContext r) of
        GCP \<Rightarrow> dataset\<lparr>Status_URL :=
                 ''gcs://'' @ GCP_ProjectID (CloudContext r) @ ''-substratus-datasets'' @
                 ''/'' @ Dataset_UID dataset @ ''/data/'' @ Spec_Filename dataset\<rparr>
      | OtherCloud name \<Rightarrow> dataset)"
  by (simp add: loadJob_def Let_def split: cloud_Name.splits prod.splits option.splits)

lemma reconcileData_eq:
  assumes "Status_URL dataset = []"
    and "CreateOrUpdate r
           \<lparr>ServiceAccount_Name = dataLoaderServiceAccountName,
            ServiceAccount_Namespace = Dataset_Namespace dataset,
            ServiceAccount_Annotations = None\<rparr>
           (authNServiceAccount (CloudContext r)) (cluster w) = ((sa', err), c1)"
  shows "reconcileData r dataset w =
     (let w1 = \<lparr>cluster = c1, trace = trace w @
            [Call_CreateOrUpdate_ServiceAccount (Dataset_Namespace dataset, dataLoaderServiceAccountName)]\<rparr>
      in case err of
           Some e \<Rightarrow>
             (((zero_result, Some (Errorf ''failed to create or update service account: '' e)),
               dataset), w1)
         | None \<Rightarrow>
             (case snd (loadJob r dataset) of
                Inl e \<Rightarrow> (((zero_result, None), fst (loadJob r dataset)), w1)
              | Inr job \<Rightarrow>
                  (if \<not> success (fst (fst (reconcileJob r (fst (loadJob r dataset)) job ''loading'' w1)))
                   then ((fst (reconcileJob r (fst (loadJob r dataset)) job ''loading'' w1),
                          fst (loadJob r dataset)),
                         snd (reconcileJob r (fst (loadJob r dataset)) job ''loading'' w1))
                   else (((success_result, None), fst (loadJob r dataset)),
                         snd (reconcileJob r (fst (loadJob r dataset)) job ''loading'' w1)))))"
  using assms
  by (cases "loadJob r dataset")
    (simp add: reconcileData_def call_def Let_def split: option.splits sum.splits prod.splits)

lemma reconcileData_trace:
  "\<exists>evs. trace (snd (reconcileData r dataset w)) = trace w @ evs \<and>
     list_all is_loader_call evs"
proof (cases "Status_URL dataset = []")
  case False
  then show ?thesis
    by (simp add: reconcileData_def)
next
  case True
  obtain sa' err c1 where sa: "CreateOrUpdate r
           \<lparr>ServiceAccount_Name = dataLoaderServiceAccountName,
            ServiceAccount_Namespace = Dataset_Namespace dataset,
            ServiceAccount_Annotations = None\<rparr>
           (authNServiceAccount (CloudContext r)) (cluster w) = ((sa', err), c1)"
    by (metis surj_pair)
  let ?ev = "Call_CreateOrUpdate_ServiceAccount
      (Dataset_Namespace dataset, dataLoaderServiceAccountName)"
  let ?w1 = "\<lparr>cluster = c1, trace = trace w @ [?ev]\<rparr>"
  have job: "\<exists>evs. trace (snd (reconcileJob r d job ''loading'' ?w1)) = trace w @ evs \<and>
      list_all is_loader_call evs" for d :: Dataset and job
  proof -
    obtain evs where "trace (snd (reconcileJob r d job ''loading'' ?w1)) = trace ?w1 @ evs"
        "list_all is_loader_call evs"
      using reconcileJob_trace [of r d job "''loading''" ?w1] by auto
    then show ?thesis
      by (intro exI [of _ "?ev # evs"]) simp
  qed
  show ?thesis
    unfolding reconcileData_eq [OF True sa]
    using job by (simp add: Let_def split: option.splits sum.splits)
qed

lemma reconcileData_success_iff:
  assumes url: "Status_URL dataset = []"
  shows "success (fst (fst (fst (reconcileData r dataset w)))) \<longleftrightarrow>
     (\<exists>sa' c1 job job1 cerr c2 job2 c3.
        CreateOrUpdate r
          \<lparr>ServiceAccount_Name = dataLoaderServiceAccountName,
           ServiceAccount_Namespace = Dataset_Namespace dataset,
           ServiceAccount_Annotations = None\<rparr>
          (authNServiceAccount (CloudContext r)) (cluster w) = ((sa', None), c1) \<and>
        snd (loadJob r dataset) = Inr job \<and>
        Create_Job r job c1 = ((job1, cerr), c2) \<and>
        IgnoreAlreadyExists cerr = None \<and>
        Get_Job r (ObjectKeyFromObject job1) job1 c2 = ((job2, None), c3) \<and>
        1 \<le> Status_Succeeded job2)"
proof -
  obtain sa' err c1 where sa: "CreateOrUpdate r
           \<lparr>ServiceAccount_Name = dataLoaderServiceAccountName,
            ServiceAccount_Namespace = Dataset_Namespace dataset,
            ServiceAccount_Annotations = None\<rparr>
           (authNServiceAccount (CloudContext r)) (cluster w) = ((sa', err), c1)"
    by (metis surj_pair)
  let ?w1 = "\<lparr>cluster = c1, trace = trace w @
      [Call_CreateOrUpdate_ServiceAccount (Dataset_Namespace dataset, dataLoaderServiceAccountName)]\<rparr>"
  show ?thesis
  proof (cases err)
    case (Some e)
    with sa show ?thesis
      unfolding reconcileData_eq [OF url sa] by (simp add: zero_result_def)
  next
    case None
    show ?thesis
    proof (cases "snd (loadJob r dataset)")
      case (Inl e)
      with None show ?thesis
        unfolding reconcileData_eq [OF url sa] by (simp add: zero_result_def)
    next
      case (Inr job)
      obtain job1 cerr c2 where create: "Create_Job r job (cluster ?w1) = ((job1, cerr), c2)"
        by (metis surj_pair)
      obtain job2 gerr c3 where get:
        "Get_Job r (ObjectKeyFromObject job1) job1 c2 = ((job2, gerr), c3)"
        by (metis surj_pair)
      have lhs: "success (fst (fst (fst (reconcileData r dataset w)))) \<longleftrightarrow>
          IgnoreAlreadyExists cerr = None \<and> gerr = None \<and> 1 \<le> Status_Succeeded job2"
        unfolding reconcileData_eq [OF url sa]
        using None Inr
        by (simp add: Let_def reconcileJob_eq [OF create get] zero_result_def
            success_result_def split: option.splits)
      from create have create': "Create_Job r job c1 = ((job1, cerr), c2)"
        by simp
      show ?thesis
        unfolding lhs using sa None Inr create' get by auto
    qed
  qed
qed

text \<open>
  Claim C7. When \<open>reconcileData\<close> gets as far as building the loader job (the URL is empty
  and the service account was created or updated without error) and \<open>loadJob\<close> returns a
  construction error, \<open>reconcileData\<close> returns no error and the zero result: no success,
  no requeue, no requeue delay. The only call it made is the one for the service account.
\<close>

theorem reconcileData_unbuildable_job:
  assumes "Status_URL dataset = []"
    and "CreateOrUpdate r
           \<lparr>ServiceAccount_Name = dataLoaderServiceAccountName,
            ServiceAccount_Namespace = Dataset_Namespace dataset,
            ServiceAccount_Annotations = None\<rparr>
           (authNServiceAccount (CloudContext r)) (cluster w) = ((sa', None), c1)"
    and "loadJob r dataset = (dataset', Inl e)"
  shows "reconcileData r dataset w =
      (((zero_result, None), dataset'),
       \<lparr>cluster = c1, trace = trace w @
          [Call_CreateOrUpdate_ServiceAccount (Dataset_Namespace dataset, dataLoaderServiceAccountName)]\<rparr>) \<and>
    \<not> success zero_result \<and> \<not> Requeue (Result zero_result) \<and> RequeueAfter (Result zero_result) = 0"
  using assms(3) unfolding reconcileData_eq [OF assms(1,2)]
  by (simp add: zero_result_def zero_Result_def)

theorem reconcileData_unbuildable_job_witness:
  "Status_URL squad = [] \<and>
   snd (fst (CreateOrUpdate (memory_reconciler False gcp_context)
      \<lparr>ServiceAccount_Name = dataLoaderServiceAccountName,
        ServiceAccount_Namespace = Dataset_Namespace squad,
        ServiceAccount_Annotations = None\<rparr>
      (authNServiceAccount (CloudContext (memory_reconciler False gcp_context)))
      (cluster empty_cluster))) = None \<and>
   snd (loadJob (memory_reconciler False gcp_context) squad) =
     Inl (Errorf ''setting owner reference: ''
       (ErrorString ''no kind is registered for the type v1.Dataset'')) \<and>
   fst (fst (reconcileData (memory_reconciler False gcp_context) squad empty_cluster)) =
     (zero_result, None)"
proof -
  let ?r = "memory_reconciler False gcp_context"
  let ?sa = "\<lparr>ServiceAccount_Name = dataLoaderServiceAccountName,
        ServiceAccount_Namespace = Dataset_Namespace squad,
        ServiceAccount_Annotations = None\<rparr>"
  have url: "Status_URL squad = []"
    by (simp add: squad_def)
  obtain sa' c1 where sa: "CreateOrUpdate ?r ?sa (authNServiceAccount (CloudContext ?r))
      (cluster empty_cluster) = ((sa', None), c1)"
    by (simp add: memory_reconciler_def memory_CreateOrUpdate_def authNServiceAccount_def
        gcp_context_def empty_cluster_def)
  have job: "loadJob ?r squad =
      (fst (loadJob ?r squad), Inl (Errorf ''setting owner reference: ''
         (ErrorString ''no kind is registered for the type v1.Dataset'')))"
    by (simp add: loadJob_def Let_def memory_reconciler_def memory_SetControllerReference_def
        gcp_context_def)
  show ?thesis
    using reconcileData_unbuildable_job [OF url sa job] url sa job
    by (metis fst_conv snd_conv)
qed

subsection \<open>\<open>Reconcile\<close>\<close>

lemma loader_calls_no_stage:
  "list_all is_loader_call evs \<Longrightarrow> filter is_stage_event evs = []"
proof (induction evs)
  case Nil
  then show ?case by simp
next
  case (Cons ev evs)
  then show ?case by (cases ev) simp_all
qed

text \<open>
  Claim C8. Every invocation of \<open>Reconcile\<close> first gets the Dataset. After that its stage
  events are, in this order and with nothing left out: the container stage; the data
  stage, begun only after the container stage has ended with success; the readiness stage
  over the required set \<open>{ContainerReady, DataReady}\<close>, begun only after the data stage has
  ended with success. A stage that ends without success is the last event of the
  invocation. (When the Dataset cannot be got, no stage runs.)
\<close>

theorem Reconcile_stage_order:
  "\<exists>evs. trace (snd (Reconcile r req w)) = trace w @ Call_Get_Dataset req # evs \<and>
     (evs = [] \<or>
      filter is_stage_event evs =
        [Stage_Begin StageContainer, Stage_End StageContainer False] \<and>
        last evs = Stage_End StageContainer False \<or>
      filter is_stage_event evs =
        [Stage_Begin StageContainer, Stage_End StageContainer True,
         Stage_Begin StageData, Stage_End StageData False] \<and>
        last evs = Stage_End StageData False \<or>
      (\<exists>b. filter is_stage_event evs =
        [Stage_Begin StageContainer, Stage_End StageContainer True,
         Stage_Begin StageData, Stage_End StageData True,
         Stage_Begin (StageReadiness Dataset_required),
         Stage_End (StageReadiness Dataset_required) b]))"
proof -
  obtain g c0 where get: "Get_Dataset r req (cluster w) = (g, c0)"
    by (metis surj_pair)
  let ?w0 = "\<lparr>cluster = c0, trace = trace w @ [Call_Get_Dataset req]\<rparr>"
  show ?thesis
  proof (cases g)
    case (Inl err)
    with get show ?thesis
      by (simp add: Reconcile_def call_def)
  next
    case (Inr dataset)
    obtain res1 err1 d1 c1 where cont: "ReconcileContainer r dataset c0 = (((res1, err1), d1), c1)"
      by (metis surj_pair)
    let ?w1 = "\<lparr>cluster = c1, trace = trace w @ [Call_Get_Dataset req, Stage_Begin StageContainer,
       Stage_End StageContainer (success res1)]\<rparr>"
    let ?w1b = "\<lparr>cluster = c1, trace = trace w @ [Call_Get_Dataset req, Stage_Begin StageContainer,
       Stage_End StageContainer (success res1), Stage_Begin StageData]\<rparr>"
    show ?thesis
    proof (cases "success res1")
      case False
      with get Inr cont show ?thesis
        by (simp add: Reconcile_def call_def run_stage_def on_cluster_def emit_def)
    next
      case True
      obtain res2 err2 d2 w2 where data: "reconcileData r d1 ?w1b = (((res2, err2), d2), w2)"
        by (metis surj_pair)
      obtain evs where evs: "trace w2 = trace ?w1b @ evs" "filter is_stage_event evs = []"
        using reconcileData_trace [of r d1 ?w1b] data loader_calls_no_stage by auto
      show ?thesis
      proof (cases "success res2")
        case False
        with get Inr cont True data evs show ?thesis
          by (simp add: Reconcile_def call_def run_stage_def on_cluster_def emit_def)
      next
        case s2: True
        obtain res3 err3 d3 c3 where ready:
          "reconcileReadiness r d2 Dataset_required (cluster w2) = (((res3, err3), d3), c3)"
          by (metis surj_pair)
        with get Inr cont True data evs s2 show ?thesis
          by (simp add: Reconcile_def call_def run_stage_def on_cluster_def emit_def)
      qed
    qed
  qed
qed

subsection \<open>The artifact URL\<close>

lemma Reconcile_trace:
  "\<exists>evs. trace (snd (Reconcile r req w)) = trace w @ Call_Get_Dataset req # evs \<and>
     (evs = [] \<or>
      evs = [Stage_Begin StageContainer, Stage_End StageContainer False] \<or>
      (\<exists>calls. list_all is_loader_call calls \<and>
         evs = [Stage_Begin StageContainer, Stage_End StageContainer True,
                Stage_Begin StageData] @ calls @ [Stage_End StageData False]) \<or>
      (\<exists>calls b. list_all is_loader_call calls \<and>
         evs = [Stage_Begin StageContainer, Stage_End StageContainer True,
                Stage_Begin StageData] @ calls @
               [Stage_End StageData True, Stage_Begin (StageReadiness Dataset_required),
                Stage_End (StageReadiness Dataset_required) b]))"
proof -
  obtain g c0 where get: "Get_Dataset r req (cluster w) = (g, c0)"
    by (metis surj_pair)
  show ?thesis
  proof (cases g)
    case (Inl err)
    with get show ?thesis
      by (simp add: Reconcile_def call_def)
  next
    case (Inr dataset)
    obtain res1 err1 d1 c1 where cont:
      "ReconcileContainer r dataset c0 = (((res1, err1), d1), c1)"
      by (metis surj_pair)
    let ?w1 = "\<lparr>cluster = c1, trace = trace w @ [Call_Get_Dataset req,
       Stage_Begin StageContainer, Stage_End StageContainer (success res1),
       Stage_Begin StageData]\<rparr>"
    show ?thesis
    proof (cases "success res1")
      case False
      with get Inr cont show ?thesis
        by (simp add: Reconcile_def call_def run_stage_def on_cluster_def emit_def)
    next
      case True
      obtain res2 err2 d2 w2 where data: "reconcileData r d1 ?w1 = (((res2, err2), d2), w2)"
        by (metis surj_pair)
      obtain calls where calls: "trace w2 = trace ?w1 @ calls" "list_all is_loader_call calls"
        using reconcileData_trace [of r d1 ?w1] data by auto
      show ?thesis
      proof (cases "success res2")
        case False
        with get Inr cont True data calls show ?thesis
          by (simp add: Reconcile_def call_def run_stage_def on_cluster_def emit_def)
      next
        case s2: True
        obtain res3 err3 d3 c3 where ready:
          "reconcileReadiness r d2 Dataset_required (cluster w2) = (((res3, err3), d3), c3)"
          by (metis surj_pair)
        with get Inr cont True data calls s2 show ?thesis
          by (simp add: Reconcile_def call_def run_stage_def on_cluster_def emit_def)
      qed
    qed
  qed
qed

lemma loader_call_not_stage:
  "list_all is_loader_call calls \<Longrightarrow>
   Stage_Begin s \<notin> set calls \<and> Stage_End s b \<notin> set calls"
  by (auto simp: list_all_iff)

text \<open>
  Claim C4. The URL gets into the status of a Dataset only once the loader job has a
  success, and is not changed after that. A URL that is not empty is left as it is by
  \<open>reconcileData\<close>. With an empty URL, \<open>reconcileData\<close> returns success exactly when the
  service account is in place, the job was built, \<open>Create\<close> returned no error or
  already-exists, and the \<open>Get\<close> that follows returned a job with at least one success.
  \<open>reconcileData\<close> hands the Dataset to no call: its calls are those on the service account
  and on the job. In \<open>Reconcile\<close> the readiness stage, the one stage that gets the Dataset
  after the data stage, begins only after the data stage has ended with success; a pass
  whose data stage ends without success, as it does while the job has no success, is made
  of the container stage and the loader's calls and ends there, so that it writes no URL.
  (\<open>loadJob\<close> assigns the URL to the Dataset object in memory when it builds the job; on a
  pass without success \<open>Reconcile\<close> returns and that object is dropped.)
\<close>

theorem status_url_gate:
  "(Status_URL dataset \<noteq> [] \<longrightarrow> snd (fst (reconcileData r dataset w)) = dataset) \<and>
   (Status_URL dataset = [] \<longrightarrow>
      (success (fst (fst (fst (reconcileData r dataset w)))) \<longleftrightarrow>
         (\<exists>sa' c1 job job1 cerr c2 job2 c3.
            CreateOrUpdate r
              \<lparr>ServiceAccount_Name = dataLoaderServiceAccountName,
               ServiceAccount_Namespace = Dataset_Namespace dataset,
               ServiceAccount_Annotations = None\<rparr>
              (authNServiceAccount (CloudContext r)) (cluster w) = ((sa', None), c1) \<and>
            snd (loadJob r dataset) = Inr job \<and>
            Create_Job r job c1 = ((job1, cerr), c2) \<and>
            IgnoreAlreadyExists cerr = None \<and>
            Get_Job r (ObjectKeyFromObject job1) job1 c2 = ((job2, None), c3) \<and>
            1 \<le> Status_Succeeded job2))) \<and>
   (\<exists>calls. trace (snd (reconcileData r dataset w)) = trace w @ calls \<and>
      list_all is_loader_call calls) \<and>
   (\<exists>evs. trace (snd (Reconcile r req w)) = trace w @ Call_Get_Dataset req # evs \<and>
      (Stage_Begin (StageReadiness Dataset_required) \<in> set evs \<longrightarrow>
         Stage_End StageData True \<in> set evs) \<and>
      (Stage_End StageData False \<in> set evs \<longrightarrow>
         (\<exists>calls. list_all is_loader_call calls \<and>
            evs = [Stage_Begin StageContainer, Stage_End StageContainer True,
                   Stage_Begin StageData] @ calls @ [Stage_End StageData False])))"
proof -
  have kept: "snd (fst (reconcileData r dataset w)) = dataset" if "Status_URL dataset \<noteq> []"
    using that by (simp add: reconcileData_def)
  have pass: "\<exists>evs. trace (snd (Reconcile r req w)) = trace w @ Call_Get_Dataset req # evs \<and>
      (Stage_Begin (StageReadiness Dataset_required) \<in> set evs \<longrightarrow>
         Stage_End StageData True \<in> set evs) \<and>
      (Stage_End StageData False \<in> set evs \<longrightarrow>
         (\<exists>calls. list_all is_loader_call calls \<and>
            evs = [Stage_Begin StageContainer, Stage_End StageContainer True,
                   Stage_Begin StageData] @ calls @ [Stage_End StageData False]))"
  proof -
    obtain evs where evs: "trace (snd (Reconcile r req w)) = trace w @ Call_Get_Dataset req # evs"
      and shape: "evs = [] \<or>
        evs = [Stage_Begin StageContainer, Stage_End StageContainer False] \<or>
        (\<exists>calls. list_all is_loader_call calls \<and>
           evs = [Stage_Begin StageContainer, Stage_End StageContainer True,
                  Stage_Begin StageData] @ calls @ [Stage_End StageData False]) \<or>
        (\<exists>calls b. list_all is_loader_call calls \<and>
           evs = [Stage_Begin StageContainer, Stage_End StageContainer True,
                  Stage_Begin StageData] @ calls @
                 [Stage_End StageData True, Stage_Begin (StageReadiness Dataset_required),
                  Stage_End (StageReadiness Dataset_required) b])"
      using Reconcile_trace [of r req w] by blast
    have "(Stage_Begin (StageReadiness Dataset_required) \<in> set evs \<longrightarrow>
         Stage_End StageData True \<in> set evs) \<and>
      (Stage_End StageData False \<in> set evs \<longrightarrow>
         (\<exists>calls. list_all is_loader_call calls \<and>
            evs = [Stage_Begin StageContainer, Stage_End StageContainer True,
                   Stage_Begin StageData] @ calls @ [Stage_End StageData False]))"
      using shape by (auto dest: loader_call_not_stage)
    with evs show ?thesis
      by blast
  qed
  from kept reconcileData_success_iff [of dataset r w] reconcileData_trace [of r dataset w] pass
  show ?thesis
    by blast
qed

theorem status_url_gate_witness:
  "Status_URL squad = [] \<and>
   success (fst (fst (fst (reconcileData (memory_reconciler True gcp_context) squad
      (cluster_with_job (loader_job\<lparr>Status_Succeeded := 1\<rparr>)))))) \<and>
   (\<exists>key job c job' c'.
      Get_Job (memory_reconciler True gcp_context) key job c = ((job', None), c') \<and>
      1 \<le> Status_Succeeded job') \<and>
   \<not> success (fst (fst (fst (reconcileData (memory_reconciler True gcp_context) squad
      empty_cluster)))) \<and>
   map Status_URL (stored_datasets (cluster (snd (Reconcile (memory_reconciler True gcp_context)
      (''default'', ''squad'')
      \<lparr>cluster = \<lparr>stored_datasets = [squad], stored_jobs = [], stored_serviceAccounts = []\<rparr>,
        trace = []\<rparr>)))) = [[]] \<and>
   last (trace (snd (Reconcile (memory_reconciler True gcp_context) (''default'', ''squad'')
      \<lparr>cluster = \<lparr>stored_datasets = [squad], stored_jobs = [], stored_serviceAccounts = []\<rparr>,
        trace = []\<rparr>))) = Stage_End StageData False"
proof -
  let ?r = "memory_reconciler True gcp_context"
  let ?w1 = "cluster_with_job (loader_job\<lparr>Status_Succeeded := 1\<rparr>)"
  have url: "Status_URL squad = []"
    by (simp add: squad_def)
  have succeeded: "success (fst (fst (fst (reconcileData ?r squad ?w1))))"
    by (simp add: memory_reconciler_def memory_Get_Dataset_def memory_Create_Job_def
        memory_Get_Job_def memory_CreateOrUpdate_def memory_SetControllerReference_def
        gcp_context_def squad_def empty_cluster_def cluster_with_job_def loader_job_def
        NotFound_def AlreadyExists_def reconcileData_def loadJob_def reconcileJob_def call_def
        ObjectKeyFromObject_def authNServiceAccount_def dataLoaderServiceAccountName_def
        IgnoreAlreadyExists_def Let_def zero_result_def success_result_def)
  have waiting: "\<not> success (fst (fst (fst (reconcileData ?r squad empty_cluster))))"
    by (simp add: memory_reconciler_def memory_Get_Dataset_def memory_Create_Job_def
        memory_Get_Job_def memory_CreateOrUpdate_def memory_SetControllerReference_def
        gcp_context_def squad_def empty_cluster_def cluster_with_job_def loader_job_def
        NotFound_def AlreadyExists_def reconcileData_def loadJob_def reconcileJob_def call_def
        ObjectKeyFromObject_def authNServiceAccount_def dataLoaderServiceAccountName_def
        IgnoreAlreadyExists_def Let_def zero_result_def success_result_def)
  have pass: "map Status_URL (stored_datasets (cluster (snd (Reconcile ?r (''default'', ''squad'')
      \<lparr>cluster = \<lparr>stored_datasets = [squad], stored_jobs = [], stored_serviceAccounts = []\<rparr>,
        trace = []\<rparr>)))) = [[]] \<and>
    last (trace (snd (Reconcile ?r (''default'', ''squad'')
      \<lparr>cluster = \<lparr>stored_datasets = [squad], stored_jobs = [], stored_serviceAccounts = []\<rparr>,
        trace = []\<rparr>))) = Stage_End StageData False"
    by (simp add: Reconcile_def run_stage_def on_cluster_def emit_def
        memory_reconciler_def memory_Get_Dataset_def memory_Create_Job_def
        memory_Get_Job_def memory_CreateOrUpdate_def memory_SetControllerReference_def
        gcp_context_def squad_def empty_cluster_def cluster_with_job_def loader_job_def
        NotFound_def AlreadyExists_def reconcileData_def loadJob_def reconcileJob_def call_def
        ObjectKeyFromObject_def authNServiceAccount_def dataLoaderServiceAccountName_def
        IgnoreAlreadyExists_def Let_def zero_result_def success_result_def)
  from status_url_gate [of squad ?r ?w1] url succeeded
  have "\<exists>sa' c1 job job1 cerr c2 job2 c3.
      CreateOrUpdate ?r
        \<lparr>ServiceAccount_Name = dataLoaderServiceAccountName,
         ServiceAccount_Namespace = Dataset_Namespace squad,
         ServiceAccount_Annotations = None\<rparr>
        (authNServiceAccount (CloudContext ?r)) (cluster ?w1) = ((sa', None), c1) \<and>
      snd (loadJob ?r squad) = Inr job \<and>
      Create_Job ?r job c1 = ((job1, cerr), c2) \<and>
      IgnoreAlreadyExists cerr = None \<and>
      Get_Job ?r (ObjectKeyFromObject job1) job1 c2 = ((job2, None), c3) \<and>
      1 \<le> Status_Succeeded job2"
    by blast
  then have "\<exists>key job c job' c'. Get_Job ?r key job c = ((job', None), c') \<and>
      1 \<le> Status_Succeeded job'"
    by blast
  with url succeeded waiting pass show ?thesis
    by blast
qed

subsection \<open>\<open>mountDataset\<close> and \<open>mountSavedModel\<close>\<close>

lemma take_drop_update_beyond:
  "take n (drop k (xs[k + n := x])) = take n (drop k xs)"
  by (simp add: drop_update_swap)

lemma take_Suc_drop_update:
  assumes "k + n < length xs"
  shows "take (Suc n) (drop k (xs[k + n := x])) = take n (drop k xs) @ [x]"
proof -
  have "n < length ((drop k xs)[n := x])"
    using assms by simp
  then have "take (Suc n) ((drop k xs)[n := x]) =
      take n ((drop k xs)[n := x]) @ [(drop k xs)[n := x] ! n]"
    by (rule take_Suc_conv_app_nth)
  also have "\<dots> = take n (drop k xs) @ [x]"
    using assms by simp
  finally show ?thesis
    by (simp add: drop_update_swap)
qed

lemma slice_elems_append1_caller:
  "slice_ok h s \<Longrightarrow> slice_elems (snd (append1 z h s x)) s = slice_elems h s"
  by (auto simp: append1_def slice_elems_def slice_ok_def nth_append take_drop_update_beyond)

lemma slice_elems_append1_local:
  "slice_ok h s \<Longrightarrow>
   slice_elems (snd (append1 z h s x)) (fst (append1 z h s x)) = slice_elems h s @ [x]"
  by (auto simp: append1_def slice_elems_def slice_ok_def nth_append take_Suc_drop_update)

text \<open>
  Claim C10. For slices of the caller that lie within their arrays and a status URL that
  \<open>parseBucketURL\<close> accepts, \<open>mountDataset\<close> (and likewise \<open>mountSavedModel\<close>) returns
  \<open>nil\<close>, and the caller's slices \<open>volumes\<close> and \<open>volumeMounts\<close>, whose headers the call
  cannot change, show the same elements after the call as before. The volume and the
  mount that the function builds are the last elements of its local slices only.
\<close>

theorem mount_leaves_caller_slices:
  assumes vols: "slice_ok (volume_arrays h) volumes"
    and mounts: "slice_ok (mount_arrays h) volumeMounts"
  shows "(\<forall>bucket subpath. parseBucketURL (Status_URL dataset) = (bucket, subpath, None) \<longrightarrow>
      (\<exists>volumes' volumeMounts' h'.
         mountDataset_body h volumes volumeMounts dataset = ((volumes', volumeMounts'), h', None) \<and>
         mountDataset h volumes volumeMounts dataset = (h', None) \<and>
         slice_elems (volume_arrays h') volumes = slice_elems (volume_arrays h) volumes \<and>
         slice_elems (mount_arrays h') volumeMounts = slice_elems (mount_arrays h) volumeMounts \<and>
         slice_elems (volume_arrays h') volumes' = slice_elems (volume_arrays h) volumes @
           [\<lparr>Volume_Name = ''data'',
             CSI = Some \<lparr>Driver = ''gcsfuse.csi.storage.gke.io'', CSI_ReadOnly = Some True,
               VolumeAttributes = [''bucketName'' \<mapsto> bucket,
                 ''mountOptions'' \<mapsto> ''implicit-dirs,uid=0,gid=3003'']\<rparr>\<rparr>] \<and>
         slice_elems (mount_arrays h') volumeMounts' =
           slice_elems (mount_arrays h) volumeMounts @
           [\<lparr>VolumeMount_Name = ''data'', ReadOnly = True, MountPath = ''/data'',
             SubPath = subpath\<rparr>])) \<and>
    (\<forall>bucket subpath. parseBucketURL (Model_Status_URL savedModel) = (bucket, subpath, None) \<longrightarrow>
      (\<exists>volumes' volumeMounts' h'.
         mountSavedModel_body h volumes volumeMounts savedModel =
           ((volumes', volumeMounts'), h', None) \<and>
         mountSavedModel h volumes volumeMounts savedModel = (h', None) \<and>
         slice_elems (volume_arrays h') volumes = slice_elems (volume_arrays h) volumes \<and>
         slice_elems (mount_arrays h') volumeMounts = slice_elems (mount_arrays h) volumeMounts \<and>
         slice_elems (volume_arrays h') volumes' = slice_elems (volume_arrays h) volumes @
           [\<lparr>Volume_Name = ''saved-model'',
             CSI = Some \<lparr>Driver = ''gcsfuse.csi.storage.gke.io'', CSI_ReadOnly = Some True,
               VolumeAttributes = [''bucketName'' \<mapsto> bucket,
                 ''mountOptions'' \<mapsto> ''implicit-dirs,uid=0,gid=3003'']\<rparr>\<rparr>] \<and>
         slice_elems (mount_arrays h') volumeMounts' =
           slice_elems (mount_arrays h) volumeMounts @
           [\<lparr>VolumeMount_Name = ''saved-model'', ReadOnly = True, MountPath = ''/model/saved'',
             SubPath = subpath\<rparr>]))"
  using slice_elems_append1_caller [OF vols] slice_elems_append1_caller [OF mounts]
    slice_elems_append1_local [OF vols] slice_elems_append1_local [OF mounts]
  by (simp add: mountDataset_def mountDataset_body_def mountSavedModel_def
      mountSavedModel_body_def split_beta)

theorem mount_leaves_caller_slices_witness:
  "slice_ok [[zero_Volume, zero_Volume]] \<lparr>sl_array = 0, sl_off = 0, sl_len = 1, sl_cap = 2\<rparr> \<and>
   slice_ok ([] :: VolumeMount arrays) nil_slice \<and>
   parseBucketURL (Status_URL (squad\<lparr>Status_URL := ''gcs://my-bucket/a/b/c.json''\<rparr>)) =
     (''my-bucket'', ''a/b'', None) \<and>
   snd (mountDataset \<lparr>volume_arrays = [[zero_Volume, zero_Volume]], mount_arrays = []\<rparr>
     \<lparr>sl_array = 0, sl_off = 0, sl_len = 1, sl_cap = 2\<rparr> nil_slice
     (squad\<lparr>Status_URL := ''gcs://my-bucket/a/b/c.json''\<rparr>)) = None \<and>
   slice_elems (volume_arrays (fst (mountDataset
       \<lparr>volume_arrays = [[zero_Volume, zero_Volume]], mount_arrays = []\<rparr>
       \<lparr>sl_array = 0, sl_off = 0, sl_len = 1, sl_cap = 2\<rparr> nil_slice
       (squad\<lparr>Status_URL := ''gcs://my-bucket/a/b/c.json''\<rparr>))))
     \<lparr>sl_array = 0, sl_off = 0, sl_len = 1, sl_cap = 2\<rparr> = [zero_Volume]"
proof -
  let ?h = "\<lparr>volume_arrays = [[zero_Volume, zero_Volume]], mount_arrays = []\<rparr>"
  let ?v = "\<lparr>sl_array = 0, sl_off = 0, sl_len = 1, sl_cap = 2\<rparr>"
  let ?d = "squad\<lparr>Status_URL := ''gcs://my-bucket/a/b/c.json''\<rparr>"
  have vols: "slice_ok (volume_arrays ?h) ?v"
    by (simp add: slice_ok_def)
  have mounts: "slice_ok (mount_arrays ?h) nil_slice"
    by (simp add: slice_ok_def nil_slice_def)
  have url: "parseBucketURL (Status_URL ?d) = (''my-bucket'', ''a/b'', None)"
    by simp code_simp
  have before: "slice_elems (volume_arrays ?h) ?v = [zero_Volume]"
    by (simp add: slice_elems_def)
  from mount_leaves_caller_slices [OF vols mounts, of ?d] url
  obtain h' where "mountDataset ?h ?v nil_slice ?d = (h', None)"
      "slice_elems (volume_arrays h') ?v = slice_elems (volume_arrays ?h) ?v"
    by blast
  with before vols mounts url show ?thesis
    by simp
qed

end
